theory Spec2Isabelle
  imports Complex_Main
begin

section \<open>Python values used by the converter\<close>

text \<open>
  A Python \<open>str\<close> is modelled as a \<open>string\<close>; every \<open>char\<close> stands for the code
  point with the same number (code points below 256). Python integers are unbounded and
  are modelled as \<open>int\<close>. An exception is a value of \<open>py_error\<close>.
\<close>

datatype py_error = ValueError | OverflowError | NameError | ParseError

subsection \<open>\<open>x or y\<close> on optional strings\<close>

text \<open>\<open>x or d\<close>: \<open>None\<close> and the empty string are falsy.\<close>

definition or_str :: "string option \<Rightarrow> string \<Rightarrow> string" where
  "or_str x d = (case x of None \<Rightarrow> d | Some s \<Rightarrow> if s = [] then d else s)"

subsection \<open>\<open>str.strip\<close>, \<open>str.split\<close>, \<open>str.join\<close>, \<open>str.startswith\<close>\<close>

text \<open>The characters below 256 for which \<open>str.isspace\<close> holds.\<close>

definition isspace :: "char \<Rightarrow> bool" where
  "isspace c = (c \<in> set [CHR 0x09, CHR 0x0A, CHR 0x0B, CHR 0x0C, CHR 0x0D,
                          CHR 0x1C, CHR 0x1D, CHR 0x1E, CHR 0x1F, CHR '' '',
                          CHR 0x85, CHR 0xA0])"

definition strip :: "string \<Rightarrow> string" where
  "strip s = rev (dropWhile isspace (rev (dropWhile isspace s)))"

definition startswith :: "string \<Rightarrow> string \<Rightarrow> bool" where
  "startswith s p = (take (length p) s = p)"

text \<open>
  \<open>s.split(sep)\<close> for a non-empty separator scans from the left and cuts at every
  non-overlapping occurrence; \<open>cur\<close> is the part read so far.
\<close>

fun split_scan :: "string \<Rightarrow> string \<Rightarrow> string \<Rightarrow> string list" where
  "split_scan sep cur [] = [cur]"
| "split_scan sep cur (c # cs) =
     (if startswith (c # cs) sep
      then cur # split_scan sep [] (drop (length sep - 1) cs)
      else split_scan sep (cur @ [c]) cs)"

text \<open>An empty separator raises \<open>ValueError: empty separator\<close>.\<close>

definition split :: "string \<Rightarrow> string \<Rightarrow> py_error + string list" where
  "split s sep = (if sep = [] then Inl ValueError else Inr (split_scan sep [] s))"

fun join :: "string \<Rightarrow> string list \<Rightarrow> string" where
  "join sep [] = []"
| "join sep [x] = x"
| "join sep (x # y # ys) = x @ sep @ join sep (y # ys)"

text \<open>\<open>classname.rsplit(".", 1)\<close> on a string that contains a dot.\<close>

definition rsplit_dot :: "string \<Rightarrow> string \<times> string" where
  "rsplit_dot s =
     (let cls = rev (takeWhile (\<lambda>c. c \<noteq> CHR ''.'') (rev s))
      in (take (length s - length cls - 1) s, cls))"

subsection \<open>Floating-point numbers\<close>

text \<open>
  A Python \<open>float\<close> is an IEEE 754 binary64 number. \<open>Finite m e\<close> is the number
  \<open>m * 2 ^ e\<close>; the sign of a zero is not kept (no operation of the converter reads it).
\<close>

datatype pyfloat = Finite int int | PosInf | NegInf | NaN

fun bitlen :: "nat \<Rightarrow> nat" where
  "bitlen n = (if n = 0 then 0 else Suc (bitlen (n div 2)))"

text \<open>
  \<open>round_binary64 neg n d\<close> is the binary64 number nearest to the fraction \<open>n / d\<close>
  (\<open>d > 0\<close>) with the sign \<open>neg\<close>, ties to the even significand: \<open>e\<close> is the exponent
  with \<open>2 ^ e \<le> n / d < 2 ^ (e + 1)\<close>, \<open>p\<close> the exponent of the last place (53 bits of
  significand, subnormal below \<open>2 ^ - 1022\<close>), \<open>m\<close> the rounded significand. A result of
  \<open>2 ^ 1024\<close> or more overflows to an infinity.
\<close>

definition round_binary64 :: "bool \<Rightarrow> nat \<Rightarrow> nat \<Rightarrow> pyfloat" where
  "round_binary64 neg n d =
     (if n = 0 then Finite 0 0
      else
        let k = int (bitlen n) - int (bitlen d);
            e = (if (if 0 \<le> k then d * 2 ^ nat k \<le> n else d \<le> n * 2 ^ nat (- k))
                 then k else k - 1);
            p = max e (- 1022) - 52;
            num = (if p < 0 then n * 2 ^ nat (- p) else n);
            den = (if p < 0 then d else d * 2 ^ nat p);
            q = num div den;
            r = num mod den;
            m = (if 2 * r < den then q
                 else if den < 2 * r then q + 1
                 else if even q then q else q + 1)
        in if 971 < p \<or> (p = 971 \<and> 2 ^ 53 \<le> m)
           then (if neg then NegInf else PosInf)
           else Finite (if neg then - int m else int m) p)"

text \<open>The float nearest to \<open>m * 2 ^ e\<close>.\<close>

definition round_dyadic :: "int \<Rightarrow> int \<Rightarrow> pyfloat" where
  "round_dyadic m e =
     (if 0 \<le> e then round_binary64 (m < 0) (nat \<bar>m\<bar> * 2 ^ nat e) 1
      else round_binary64 (m < 0) (nat \<bar>m\<bar>) (2 ^ nat (- e)))"

text \<open>The float nearest to \<open>m * 10 ^ x\<close>.\<close>

definition round_decimal :: "bool \<Rightarrow> nat \<Rightarrow> int \<Rightarrow> pyfloat" where
  "round_decimal neg m x =
     (if 0 \<le> x then round_binary64 neg (m * 10 ^ nat x) 1
      else round_binary64 neg m (10 ^ nat (- x)))"

text \<open>The product \<open>x * y\<close> of two floats.\<close>

fun float_mul :: "pyfloat \<Rightarrow> pyfloat \<Rightarrow> pyfloat" where
  "float_mul (Finite m1 e1) (Finite m2 e2) = round_dyadic (m1 * m2) (e1 + e2)"
| "float_mul NaN y = NaN"
| "float_mul x NaN = NaN"
| "float_mul (Finite m e) y =
     (if m = 0 then NaN else if (m < 0) = (y = PosInf) then NegInf else PosInf)"
| "float_mul x (Finite m e) =
     (if m = 0 then NaN else if (m < 0) = (x = PosInf) then NegInf else PosInf)"
| "float_mul x y = (if x = y then PosInf else NegInf)"

text \<open>
  \<open>int(x)\<close> truncates towards zero; an infinity raises \<open>OverflowError\<close> and a NaN raises
  \<open>ValueError\<close>.
\<close>

fun py_int :: "pyfloat \<Rightarrow> py_error + int" where
  "py_int (Finite m e) =
     Inr (if 0 \<le> e then m * 2 ^ nat e else sgn m * (\<bar>m\<bar> div 2 ^ nat (- e)))"
| "py_int PosInf = Inl OverflowError"
| "py_int NegInf = Inl OverflowError"
| "py_int NaN = Inl ValueError"

subsection \<open>\<open>float(s)\<close> on a string\<close>

definition is_digit :: "char \<Rightarrow> bool" where
  "is_digit c = (c \<in> set ''0123456789'')"

definition digit_val :: "char \<Rightarrow> nat" where
  "digit_val c = length (takeWhile (\<lambda>d. d \<noteq> c) ''0123456789'')"

definition digits_val :: "string \<Rightarrow> nat" where
  "digits_val ds = foldl (\<lambda>n c. 10 * n + digit_val c) 0 ds"

text \<open>
  An underscore is accepted only between two digits and is then dropped; \<open>prev\<close> is the
  character before the one read.
\<close>

fun drop_underscores :: "char option \<Rightarrow> string \<Rightarrow> string option" where
  "drop_underscores prev [] = Some []"
| "drop_underscores prev (c # cs) =
     (if c = CHR ''_''
      then (case (prev, cs) of
              (Some p, n # _) \<Rightarrow>
                if is_digit p \<and> is_digit n then drop_underscores (Some c) cs else None
            | _ \<Rightarrow> None)
      else map_option ((#) c) (drop_underscores (Some c) cs))"

text \<open>The white space that \<open>float\<close> removes at both ends.\<close>

definition float_space :: "char \<Rightarrow> bool" where
  "float_space c = (c \<in> set [CHR 0x09, CHR 0x0A, CHR 0x0B, CHR 0x0C, CHR 0x0D, CHR '' '',
                              CHR 0x85, CHR 0xA0])"

definition float_strip :: "string \<Rightarrow> string" where
  "float_strip s = rev (dropWhile float_space (rev (dropWhile float_space s)))"

definition lower :: "char \<Rightarrow> char" where
  "lower c = (case map_of (zip ''ABCDEFGHIJKLMNOPQRSTUVWXYZ'' ''abcdefghijklmnopqrstuvwxyz'') c of
                None \<Rightarrow> c | Some l \<Rightarrow> l)"

text \<open>The exponent part: empty, or \<open>e\<close>/\<open>E\<close>, an optional sign and at least one digit.\<close>

definition parse_exponent :: "string \<Rightarrow> int option" where
  "parse_exponent r =
     (case r of
        [] \<Rightarrow> Some 0
      | c # cs \<Rightarrow>
          if c = CHR ''e'' \<or> c = CHR ''E'' then
            (let (neg, ds) = (case cs of
                                [] \<Rightarrow> (False, [])
                              | s # rest \<Rightarrow> if s = CHR ''-'' then (True, rest)
                                           else if s = CHR ''+'' then (False, rest)
                                           else (False, cs))
             in if ds \<noteq> [] \<and> list_all is_digit ds
                then Some (if neg then - int (digits_val ds) else int (digits_val ds))
                else None)
          else None)"

text \<open>
  The decimal number: digits, an optional point and digits (one digit at least), an
  optional exponent. The result \<open>(m, x)\<close> stands for \<open>m * 10 ^ x\<close>.
\<close>

definition parse_decimal :: "string \<Rightarrow> (nat \<times> int) option" where
  "parse_decimal s =
     (let ip = takeWhile is_digit s;
          r1 = dropWhile is_digit s;
          (fp, r2) = (case r1 of
                        [] \<Rightarrow> ([], [])
                      | c # cs \<Rightarrow> if c = CHR ''.''
                                  then (takeWhile is_digit cs, dropWhile is_digit cs)
                                  else ([], r1))
      in if ip = [] \<and> fp = [] then None
         else (case parse_exponent r2 of
                 None \<Rightarrow> None
               | Some x \<Rightarrow> Some (digits_val (ip @ fp), x - int (length fp))))"

definition py_float :: "string \<Rightarrow> py_error + pyfloat" where
  "py_float str =
     (case drop_underscores None str of
        None \<Rightarrow> Inl ValueError
      | Some s0 \<Rightarrow>
          let s = float_strip s0;
              (neg, body) = (case s of
                               [] \<Rightarrow> (False, [])
                             | c # cs \<Rightarrow> if c = CHR ''-'' then (True, cs)
                                         else if c = CHR ''+'' then (False, cs)
                                         else (False, s));
              lw = map lower body
          in if lw = ''inf'' \<or> lw = ''infinity'' then Inr (if neg then NegInf else PosInf)
             else if lw = ''nan'' then Inr NaN
             else (case parse_decimal body of
                     None \<Rightarrow> Inl ValueError
                   | Some (m, x) \<Rightarrow> Inr (round_decimal neg m x)))"

section \<open>XML elements\<close>

text \<open>
  An \<open>ET.Element\<close>: tag, attributes, the text before the first child (\<open>None\<close> when there
  is none) and the child elements in document order.
\<close>

datatype element =
  Element (el_tag: string) (el_attrib: "(string \<times> string) list")
          (el_text: "string option") (el_children: "element list")

text \<open>\<open>e.get(k)\<close>, \<open>e.find(t)\<close> and \<open>e.findall(t)\<close> for a plain tag \<open>t\<close>.\<close>

definition el_get :: "element \<Rightarrow> string \<Rightarrow> string option" where
  "el_get e k = map_of (el_attrib e) k"

definition el_find :: "element \<Rightarrow> string \<Rightarrow> element option" where
  "el_find e t = List.find (\<lambda>c. el_tag c = t) (el_children e)"

definition el_findall :: "element \<Rightarrow> string \<Rightarrow> element list" where
  "el_findall e t = filter (\<lambda>c. el_tag c = t) (el_children e)"

text \<open>All elements below \<open>e\<close>, in document order (for the path \<open>.//testsuite\<close>).\<close>

fun descendants :: "element \<Rightarrow> element list" where
  "descendants (Element t a x cs) = concat (map (\<lambda>c. c # descendants c) cs)"

section \<open>Helpers\<close>

text \<open>
  \<open>stable_hash\<close>: the hexadecimal MD5 digest of the UTF-8 bytes of \<open>s\<close>. The digest
  function of \<open>hashlib\<close> is the parameter \<open>md5_hexdigest\<close>.
\<close>

definition utf8_encode :: "string \<Rightarrow> string" where
  "utf8_encode s =
     concat (map (\<lambda>c. if of_char c < (128::nat) then [c]
                        else [char_of (192 + of_char c div (64::nat)),
                              char_of (128 + of_char c mod (64::nat))]) s)"

definition stable_hash :: "(string \<Rightarrow> string) \<Rightarrow> string \<Rightarrow> string" where
  "stable_hash md5_hexdigest s = md5_hexdigest (utf8_encode s)"

definition split_classname :: "string \<Rightarrow> string \<times> string" where
  "split_classname classname =
     (if classname = [] then ([], [])
      else if CHR ''.'' \<in> set classname then rsplit_dot classname
      else ([], classname))"

datatype label = Label (label_name: string) (label_value: string)
datatype link = Link (link_name: string) (link_url: string)
datatype parameter = Parameter (parameter_name: string) (parameter_value: string)

definition derive_suite_labels :: "string \<Rightarrow> string \<Rightarrow> string \<Rightarrow> py_error + label list" where
  "derive_suite_labels ts_name sep default_parent =
     (case (if ts_name \<noteq> [] then map_sum id (map strip) (split ts_name sep) else Inr []) of
        Inl err \<Rightarrow> Inl err
      | Inr parts \<Rightarrow>
          Inr (if 3 \<le> length parts
               then [Label ''parentSuite'' (parts ! 0), Label ''suite'' (parts ! 1),
                     Label ''subSuite'' (join sep (drop 2 parts))]
               else if length parts = 2
               then [Label ''parentSuite'' (parts ! 0), Label ''suite'' (parts ! 1)]
               else if length parts = 1 \<and> parts ! 0 \<noteq> []
               then [Label ''parentSuite'' default_parent, Label ''suite'' (parts ! 0)]
               else []))"

text \<open>
  \<open>map_status\<close>: the status and the \<open>statusDetails\<close> dictionary, as its list of items.
\<close>

definition marker_details :: "string \<Rightarrow> element \<Rightarrow> (string \<times> string) list" where
  "marker_details msg el =
     [(''message'', strip msg), (''trace'', strip (or_str (el_text el) []))]"

definition map_status :: "element \<Rightarrow> string \<times> (string \<times> string) list" where
  "map_status tc_elem =
     (case el_find tc_elem ''failure'' of
        Some failure \<Rightarrow>
          (''failed'', marker_details (or_str (el_get failure ''message'') []) failure)
      | None \<Rightarrow>
     (case el_find tc_elem ''error'' of
        Some error \<Rightarrow>
          (''broken'', marker_details (or_str (el_get error ''message'') []) error)
      | None \<Rightarrow>
     (case el_find tc_elem ''skipped'' of
        Some skipped \<Rightarrow>
          (''skipped'',
           marker_details
             (or_str (el_get skipped ''message'') (or_str (el_get skipped ''type'') []))
             skipped)
      | None \<Rightarrow> (''passed'', []))))"

text \<open>\<open>to_ms\<close>: every exception of \<open>float\<close> and \<open>int\<close> is caught and gives \<open>None\<close>.\<close>

definition to_ms :: "string option \<Rightarrow> int option" where
  "to_ms seconds_str =
     (case seconds_str of
        None \<Rightarrow> None
      | Some s \<Rightarrow>
          (case py_float s of
             Inl err \<Rightarrow> None
           | Inr f \<Rightarrow>
               (case py_int (float_mul f (Finite 1000 0)) of
                  Inl err \<Rightarrow> None
                | Inr n \<Rightarrow> Some n)))"

definition testcase_timing :: "element \<Rightarrow> int \<Rightarrow> int \<times> int" where
  "testcase_timing tc suite_start_ms =
     (case to_ms (el_get tc ''time'') of
        None \<Rightarrow>
          (let start = suite_start_ms; stop = max (start + 1) start in (start, stop))
      | Some duration \<Rightarrow>
          (let start = suite_start_ms; stop = start + duration in (start, stop)))"

text \<open>
  A \<open>dict\<close> of strings is the list of its items in insertion order; assigning to a key
  that is present replaces the value in place.
\<close>

fun dict_set :: "(string \<times> string) list \<Rightarrow> string \<Rightarrow> string \<Rightarrow> (string \<times> string) list" where
  "dict_set [] k v = [(k, v)]"
| "dict_set ((k', v') # d) k v =
     (if k' = k then (k, v) # d else (k', v') # dict_set d k v)"

text \<open>The loop over the \<open>property\<close> elements, shared by the suite and the case level.\<close>

definition read_properties :: "element option \<Rightarrow> (string \<times> string) list" where
  "read_properties props_elem =
     (case props_elem of
        None \<Rightarrow> []
      | Some pe \<Rightarrow>
          foldl (\<lambda>props p.
                   (case el_get p ''name'' of
                      None \<Rightarrow> props
                    | Some name \<Rightarrow>
                        if name \<noteq> [] then dict_set props name (or_str (el_get p ''value'') [])
                        else props))
                [] (el_findall pe ''property''))"

definition collect_properties :: "element \<Rightarrow> (string \<times> string) list" where
  "collect_properties tc = read_properties (el_find tc ''properties'')"

text \<open>The loop of \<open>map_properties_to_labels_links_params\<close>, appending to one of three lists.\<close>

fun route_properties ::
  "(string \<times> string) list \<Rightarrow> label list \<times> link list \<times> parameter list
     \<Rightarrow> label list \<times> link list \<times> parameter list" where
  "route_properties [] acc = acc"
| "route_properties ((k, v) # props) (labels, links, params) =
     (if startswith k ''allure.label.''
      then route_properties props
             (labels @ [Label (drop (length ''allure.label.'') k) v], links, params)
      else if startswith k ''allure.link.''
      then route_properties props
             (labels, links @ [Link (drop (length ''allure.link.'') k) v], params)
      else if startswith k ''allure.param.''
      then route_properties props
             (labels, links, params @ [Parameter (drop (length ''allure.param.'') k) v])
      else route_properties props (labels, links, params))"

definition map_properties_to_labels_links_params ::
  "(string \<times> string) list \<Rightarrow> label list \<times> link list \<times> parameter list" where
  "map_properties_to_labels_links_params props = route_properties props ([], [], [])"

section \<open>Output documents and the outside world\<close>

record result_doc =
  r_uuid :: string
  r_historyId :: string
  r_name :: string
  r_fullName :: string
  r_status :: string
  r_statusDetails :: "(string \<times> string) list"
  r_stage :: string
  r_steps :: "string list"
  r_attachments :: "string list"
  r_parameters :: "parameter list"
  r_labels :: "label list"
  r_links :: "link list"
  r_start :: int
  r_stop :: int

record container_doc =
  c_uuid :: string
  c_name :: string
  c_children :: "string list"
  c_befores :: "string list"
  c_afters :: "string list"
  c_links :: "link list"
  c_start :: int
  c_stop :: int

record executor_doc =
  x_name :: string
  x_type :: string
  x_buildName :: string
  x_buildUrl :: string
  x_reportUrl :: string

datatype document =
  ResultDoc result_doc | ContainerDoc container_doc | ExecutorDoc executor_doc

text \<open>
  What the program reads from and writes to outside itself: \<open>uuid_source\<close> lists the
  strings that the successive calls of \<open>str(uuid.uuid4())\<close> return and \<open>clock_source\<close>
  the values of the successive calls of \<open>ms_now\<close>; \<open>files\<close> is the output directory, by
  file name (writing a name again replaces the file); \<open>stdout\<close> and \<open>stderr\<close> are the
  lines printed.
\<close>

record world =
  uuid_source :: "nat \<Rightarrow> string"
  uuid_calls :: nat
  clock_source :: "nat \<Rightarrow> int"
  clock_calls :: nat
  files :: "string \<rightharpoonup> document"
  stdout :: "string list"
  stderr :: "string list"

definition uuid4 :: "world \<Rightarrow> string \<times> world" where
  "uuid4 w = (uuid_source w (uuid_calls w), w\<lparr>uuid_calls := Suc (uuid_calls w)\<rparr>)"

definition ms_now :: "world \<Rightarrow> int \<times> world" where
  "ms_now w = (clock_source w (clock_calls w), w\<lparr>clock_calls := Suc (clock_calls w)\<rparr>)"

definition write_file :: "string \<Rightarrow> document \<Rightarrow> world \<Rightarrow> world" where
  "write_file fname d w = w\<lparr>files := (files w)(fname \<mapsto> d)\<rparr>"

section \<open>Core conversion\<close>

text \<open>
  The dictionary \<open>result\<close> that the body of the loop over the test cases builds, from the
  cursor passed to \<open>testcase_timing\<close> and the identifier drawn for the case.
\<close>

definition testcase_result ::
  "(string \<Rightarrow> string) \<Rightarrow> string \<Rightarrow> label list \<Rightarrow> label list \<Rightarrow> link list
     \<Rightarrow> int \<Rightarrow> string \<Rightarrow> element \<Rightarrow> result_doc" where
  "testcase_result md5_hexdigest framework_name suite_labels sp_labels sp_links cursor tr_uuid tc =
     (let classname = or_str (el_get tc ''classname'') [];
          name = or_str (el_get tc ''name'') ''test'';
          (pkg, cls) = split_classname classname;
          method = name;
          (status, statusDetails) = map_status tc;
          (start, stop) = testcase_timing tc cursor;
          props = collect_properties tc;
          (p_labels, p_links, params) = map_properties_to_labels_links_params props;
          full_name = join ''.'' (filter (\<lambda>x. x \<noteq> []) [pkg, cls, method]);
          history_id = stable_hash md5_hexdigest
                         (if full_name \<noteq> [] then full_name else classname @ ''::'' @ name);
          labels = [Label ''framework'' framework_name, Label ''language'' ''unknown'']
                   @ (if pkg \<noteq> [] then [Label ''package'' pkg] else [])
                   @ (if cls \<noteq> [] then [Label ''testClass'' cls] else [])
                   @ (if method \<noteq> [] then [Label ''testMethod'' method] else [])
                   @ suite_labels @ sp_labels @ p_labels
      in \<lparr> r_uuid = tr_uuid,
           r_historyId = history_id,
           r_name = method,
           r_fullName = (if full_name \<noteq> [] then full_name else method),
           r_status = status,
           r_statusDetails = statusDetails,
           r_stage = ''finished'',
           r_steps = [],
           r_attachments = [],
           r_parameters = params,
           r_labels = labels,
           r_links = sp_links @ p_links,
           r_start = start,
           r_stop = stop \<rparr>)"

text \<open>
  The loop over the test cases of one suite. Its state is \<open>last_stop\<close>, the container and
  the world; the cursor of a case is \<open>last_stop or suite_start\<close>.
\<close>

fun convert_testcases ::
  "(string \<Rightarrow> string) \<Rightarrow> string \<Rightarrow> label list \<Rightarrow> label list \<Rightarrow> link list \<Rightarrow> int
     \<Rightarrow> element list \<Rightarrow> int \<times> container_doc \<times> world \<Rightarrow> int \<times> container_doc \<times> world" where
  "convert_testcases md5_hexdigest framework_name suite_labels sp_labels sp_links suite_start
     [] state = state"
| "convert_testcases md5_hexdigest framework_name suite_labels sp_labels sp_links suite_start
     (tc # tcs) (last_stop, container, w) =
     (let (tr_uuid, w1) = uuid4 w;
          result = testcase_result md5_hexdigest framework_name suite_labels sp_labels sp_links
                     (if last_stop \<noteq> 0 then last_stop else suite_start) tr_uuid tc;
          w2 = write_file (tr_uuid @ ''-result.json'') (ResultDoc result) w1;
          container' = container\<lparr> c_children := c_children container @ [tr_uuid],
                                  c_stop := max (c_stop container) (r_stop result) \<rparr>
      in convert_testcases md5_hexdigest framework_name suite_labels sp_labels sp_links
           suite_start tcs (r_stop result, container', w2))"

text \<open>
  The body of the loop over the suites of one file; \<open>stem\<close> is \<open>xml_path.stem\<close>. The result
  is the exception that leaves the body, if any, and the world.
\<close>

definition convert_suite ::
  "(string \<Rightarrow> string) \<Rightarrow> string \<Rightarrow> string \<Rightarrow> string \<Rightarrow> string \<Rightarrow> element \<Rightarrow> world
     \<Rightarrow> py_error option \<times> world" where
  "convert_suite md5_hexdigest stem suite_sep default_parent framework_name ts w =
     (let ts_name = or_str (el_get ts ''name'') stem;
          (suite_uuid, w1) = uuid4 w;
          (suite_start, w2) = ms_now w1;
          container = \<lparr> c_uuid = suite_uuid, c_name = ts_name, c_children = [],
                        c_befores = [], c_afters = [], c_links = [],
                        c_start = suite_start, c_stop = suite_start \<rparr>
      in case derive_suite_labels ts_name suite_sep default_parent of
           Inl err \<Rightarrow> (Some err, w2)
         | Inr suite_labels \<Rightarrow>
             (let suite_props = read_properties (el_find ts ''properties'');
                  (sp_labels, sp_links, sp_params) =
                    map_properties_to_labels_links_params suite_props;
                  (last_stop, container', w3) =
                    convert_testcases md5_hexdigest framework_name suite_labels sp_labels
                      sp_links suite_start (el_findall ts ''testcase'')
                      (suite_start, container, w2);
                  w4 = write_file (suite_uuid @ ''-container.json'') (ContainerDoc container') w3
              in (None, w4)))"

fun convert_suites ::
  "(string \<Rightarrow> string) \<Rightarrow> string \<Rightarrow> string \<Rightarrow> string \<Rightarrow> string \<Rightarrow> element list \<Rightarrow> world
     \<Rightarrow> py_error option \<times> world" where
  "convert_suites md5_hexdigest stem suite_sep default_parent framework_name [] w = (None, w)"
| "convert_suites md5_hexdigest stem suite_sep default_parent framework_name (ts # suites) w =
     (case convert_suite md5_hexdigest stem suite_sep default_parent framework_name ts w of
        (Some err, w') \<Rightarrow> (Some err, w')
      | (None, w') \<Rightarrow>
          convert_suites md5_hexdigest stem suite_sep default_parent framework_name suites w')"

text \<open>
  \<open>convert_file\<close>: \<open>parsed\<close> is what \<open>ET.parse(xml_path).getroot()\<close> returns, \<open>None\<close> when
  the file is not well-formed and \<open>ET.parse\<close> raises.
\<close>

definition convert_file ::
  "(string \<Rightarrow> string) \<Rightarrow> string \<Rightarrow> element option \<Rightarrow> string \<Rightarrow> string \<Rightarrow> string \<Rightarrow> world
     \<Rightarrow> py_error option \<times> world" where
  "convert_file md5_hexdigest stem parsed suite_sep default_parent framework_name w =
     (case parsed of
        None \<Rightarrow> (Some ParseError, w)
      | Some xml_root \<Rightarrow>
          (let suites = (if el_tag xml_root = ''testsuite'' then [xml_root]
                         else if el_tag xml_root = ''testsuites'' then el_findall xml_root ''testsuite''
                         else filter (\<lambda>e. el_tag e = ''testsuite'') (descendants xml_root))
           in convert_suites md5_hexdigest stem suite_sep default_parent framework_name suites w))"

definition write_executor :: "world \<Rightarrow> world" where
  "write_executor w =
     write_file ''executor.json''
       (ExecutorDoc \<lparr> x_name = ''XML Converter'', x_type = ''other'', x_buildName = [],
                      x_buildUrl = [], x_reportUrl = [] \<rparr>) w"

section \<open>The command line\<close>

text \<open>
  The names bound at module level: the imports of the file and its own functions. A name
  that is neither here nor a builtin raises \<open>NameError\<close> when it is evaluated.
\<close>

definition module_names :: "string list" where
  "module_names =
     [''argparse'', ''json'', ''os'', ''re'', ''time'', ''uuid'', ''hashlib'', ''ET'', ''Path'',
      ''Dict'', ''List'', ''Tuple'', ''Optional'',
      ''ms_now'', ''stable_hash'', ''split_classname'', ''derive_suite_labels'', ''map_status'',
      ''to_ms'', ''testcase_timing'', ''collect_properties'',
      ''map_properties_to_labels_links_params'', ''convert_file'', ''write_executor'',
      ''find_xml_files'', ''main'']"

definition builtin_names :: "string list" where
  "builtin_names = [''print'', ''int'', ''float'', ''str'', ''len'', ''max'', ''list'', ''sorted'',
                    ''open'', ''Exception'']"

definition lookup_name :: "string \<Rightarrow> py_error + string" where
  "lookup_name n = (if n \<in> set module_names \<or> n \<in> set builtin_names then Inr n
                    else Inl NameError)"

text \<open>
  The parsed arguments that \<open>main\<close> uses after discovery; \<open>arg_output\<close> is the
  resolved output directory, as printed at the end.
\<close>

record args =
  arg_suite_split :: string
  arg_default_parent :: string
  arg_framework_name :: string
  arg_write_executor :: bool
  arg_output :: string

text \<open>
  How the process ends: \<open>main\<close> returns, \<open>sys.exit(n)\<close> is called, or an exception is not
  caught. The exit status of the interpreter is 0, \<open>n\<close> and 1.
\<close>

datatype outcome = Returned | SysExit int | Uncaught py_error

fun exit_status :: "outcome \<Rightarrow> int" where
  "exit_status Returned = 0"
| "exit_status (SysExit n) = n"
| "exit_status (Uncaught err) = 1"

fun convert_files ::
  "(string \<Rightarrow> string) \<Rightarrow> args \<Rightarrow> (string \<times> element option) list \<Rightarrow> world
     \<Rightarrow> py_error option \<times> world" where
  "convert_files md5_hexdigest a [] w = (None, w)"
| "convert_files md5_hexdigest a ((stem, parsed) # ps) w =
     (case convert_file md5_hexdigest stem parsed (arg_suite_split a)
             (arg_default_parent a) (arg_framework_name a) w of
        (Some err, w') \<Rightarrow> (Some err, w')
      | (None, w') \<Rightarrow> convert_files md5_hexdigest a ps w')"

text \<open>
  \<open>main\<close>, after the arguments are parsed and the output directory is made; \<open>found\<close> is
  the list that \<open>find_xml_files\<close> returns, each file as its stem and its parsed content.
  In the branch for no files, \<open>print(..., file=sys.stderr)\<close> evaluates the name \<open>sys\<close>
  before it prints.
\<close>

definition main ::
  "(string \<Rightarrow> string) \<Rightarrow> args \<Rightarrow> (string \<times> element option) list \<Rightarrow> world \<Rightarrow> outcome \<times> world" where
  "main md5_hexdigest a found w =
     (if found = [] then
        (case lookup_name ''sys'' of
           Inl err \<Rightarrow> (Uncaught err, w)
         | Inr sys \<Rightarrow> (SysExit 2, w\<lparr>stderr := stderr w @ [''No XML files found.'']\<rparr>))
      else
        (case convert_files md5_hexdigest a found w of
           (Some err, w1) \<Rightarrow> (Uncaught err, w1)
         | (None, w1) \<Rightarrow>
             (let w2 = (if arg_write_executor a then write_executor w1 else w1)
              in (Returned,
                  w2\<lparr>stdout := stdout w2 @ [''Wrote Allure results to: '' @ arg_output a]\<rparr>))))"

section \<open>Notions used in the statements\<close>

text \<open>The rational number that the float \<open>Finite m e\<close> stands for.\<close>

definition float_value :: "int \<Rightarrow> int \<Rightarrow> rat" where
  "float_value m e = of_int m * 2 powi e"

text \<open>Truncation towards zero.\<close>

definition truncate :: "rat \<Rightarrow> int" where
  "truncate q = (if 0 \<le> q then \<lfloor>q\<rfloor> else \<lceil>q\<rceil>)"

text \<open>
  The timing that the specification describes for a duration of \<open>d\<close> seconds:
  \<open>start = cursor\<close> and \<open>stop = start + round(d * 1000)\<close>.
\<close>

definition spec_timing :: "rat \<Rightarrow> int \<Rightarrow> int \<times> int" where
  "spec_timing d cursor = (cursor, cursor + round (d * 1000))"

text \<open>A string with no white space at either end.\<close>

definition trimmed :: "string \<Rightarrow> bool" where
  "trimmed s = (s = [] \<or> (\<not> isspace (hd s) \<and> \<not> isspace (last s)))"

text \<open>
  The labels of a case that do not come from properties: framework, language and the
  package, class and method of the case.
\<close>

definition own_labels :: "string \<Rightarrow> element \<Rightarrow> label list" where
  "own_labels framework_name tc =
     (let name = or_str (el_get tc ''name'') ''test'';
          (pkg, cls) = split_classname (or_str (el_get tc ''classname'') [])
      in [Label ''framework'' framework_name, Label ''language'' ''unknown'']
         @ (if pkg \<noteq> [] then [Label ''package'' pkg] else [])
         @ (if cls \<noteq> [] then [Label ''testClass'' cls] else [])
         @ [Label ''testMethod'' name])"

text \<open>
  A world for the examples: the \<open>n\<close>-th identifier is \<open>n + 1\<close> letters \<open>u\<close>, the clock
  stands at \<open>now\<close>, the output directory is empty.
\<close>

definition example_world :: "int \<Rightarrow> world" where
  "example_world now =
     \<lparr> uuid_source = (\<lambda>n. replicate (Suc n) CHR ''u''), uuid_calls = 0,
       clock_source = (\<lambda>n. now), clock_calls = 0,
       files = Map.empty, stdout = [], stderr = [] \<rparr>"

text \<open>
  The documents that the loop over the test cases builds, in order: \<open>us\<close> is the source
  of identifiers, \<open>n\<close> the number of identifiers drawn before, \<open>last_stop\<close> the state of
  the loop.
\<close>

fun case_results ::
  "(string \<Rightarrow> string) \<Rightarrow> string \<Rightarrow> label list \<Rightarrow> label list \<Rightarrow> link list \<Rightarrow> int
     \<Rightarrow> (nat \<Rightarrow> string) \<Rightarrow> nat \<Rightarrow> int \<Rightarrow> element list \<Rightarrow> result_doc list" where
  "case_results md5_hexdigest framework_name suite_labels sp_labels sp_links suite_start
     us n last_stop [] = []"
| "case_results md5_hexdigest framework_name suite_labels sp_labels sp_links suite_start
     us n last_stop (tc # tcs) =
     (let r = testcase_result md5_hexdigest framework_name suite_labels sp_labels sp_links
                (if last_stop \<noteq> 0 then last_stop else suite_start) (us n) tc
      in r # case_results md5_hexdigest framework_name suite_labels sp_labels sp_links
               suite_start us (Suc n) (r_stop r) tcs)"

text \<open>What a file of the output directory says: its start, stop and children.\<close>

definition start_of :: "document option \<Rightarrow> int option" where
  "start_of d = (case d of
                   Some (ResultDoc r) \<Rightarrow> Some (r_start r)
                 | Some (ContainerDoc c) \<Rightarrow> Some (c_start c)
                 | _ \<Rightarrow> None)"

definition stop_of :: "document option \<Rightarrow> int option" where
  "stop_of d = (case d of
                  Some (ResultDoc r) \<Rightarrow> Some (r_stop r)
                | Some (ContainerDoc c) \<Rightarrow> Some (c_stop c)
                | _ \<Rightarrow> None)"

definition children_of :: "document option \<Rightarrow> string list option" where
  "children_of d = (case d of Some (ContainerDoc c) \<Rightarrow> Some (c_children c) | _ \<Rightarrow> None)"

text \<open>The output directory after the document of a case is written.\<close>

definition put_result :: "(string \<rightharpoonup> document) \<Rightarrow> result_doc \<Rightarrow> (string \<rightharpoonup> document)" where
  "put_result f r = f(r_uuid r @ ''-result.json'' \<mapsto> ResultDoc r)"

text \<open>
  Suites for the examples. \<open>example_suite\<close> has two cases, the second with a property;
  \<open>negative_suite\<close> has one case with a negative time; the first case of
  \<open>zero_stop_suite\<close> has the time \<open>-1700000000\<close> seconds, which brings its stop to 0 when
  the clock stands at 1700000000000 milliseconds.
\<close>

definition example_suite :: element where
  "example_suite =
     Element ''testsuite'' [(''name'', ''Web / Checkout / Cart'')] None
       [Element ''testcase'' [(''classname'', ''shop.CartTest''), (''name'', ''adds''),
                              (''time'', ''0.5'')] None [],
        Element ''testcase'' [(''classname'', ''shop.CartTest''), (''name'', ''pays'')] None
          [Element ''properties'' [] None
             [Element ''property'' [(''name'', ''allure.label.epic''), (''value'', ''Payments'')]
                None []]]]"

definition negative_suite :: element where
  "negative_suite =
     Element ''testsuite'' [(''name'', ''S'')] None
       [Element ''testcase'' [(''name'', ''t''), (''time'', ''-1'')] None []]"

definition zero_stop_suite :: element where
  "zero_stop_suite =
     Element ''testsuite'' [(''name'', ''S'')] None
       [Element ''testcase'' [(''name'', ''a''), (''time'', ''-1700000000'')] None [],
        Element ''testcase'' [(''name'', ''b''), (''time'', ''2'')] None []]"

section \<open>Evaluation of the float model\<close>

lemmas float_eval = py_float_def float_strip_def float_space_def parse_decimal_def is_digit_def
  parse_exponent_def digits_val_def digit_val_def round_decimal_def round_binary64_def
  round_dyadic_def lower_def Let_def

section \<open>Status classifier\<close>

lemma trimmed_strip: "trimmed (strip s)"
proof -
  let ?a = "dropWhile isspace s"
  let ?b = "dropWhile isspace (rev ?a)"
  show ?thesis
  proof (cases "?b = []")
    case True
    then show ?thesis by (simp add: trimmed_def strip_def)
  next
    case False
    then have hb: "\<not> isspace (hd ?b)" by (rule hd_dropWhile)
    have "\<exists>us. rev ?a = us @ ?b" by (metis takeWhile_dropWhile_id)
    then obtain us where us: "rev ?a = us @ ?b" ..
    then have a: "?a = rev ?b @ rev us" by (metis rev_append rev_rev_ident)
    have ane: "?a \<noteq> []" using False by (metis dropWhile.simps(1) rev_is_Nil_conv)
    then have ha: "\<not> isspace (hd ?a)" by (rule hd_dropWhile)
    have "hd (rev ?b) = hd ?a" using a False by (metis hd_append2 rev_is_Nil_conv)
    moreover have "last (rev ?b) = hd ?b" using False by (simp add: last_rev)
    ultimately show ?thesis using ha hb False by (simp add: trimmed_def strip_def)
  qed
qed

text \<open>
  Claim C3, as amended. The status follows the priority failure, error, skipped, passed.
  With a marker, the detail holds both \<open>message\<close> and \<open>trace\<close>, each the trimmed
  attribute or body and the empty string when that is absent; for \<open>skipped\<close> the message
  attribute is preferred to the type attribute. With no marker the status is \<open>passed\<close>
  and the detail is the empty dictionary: it has no \<open>message\<close> and no \<open>trace\<close> entry.
\<close>

theorem map_status_priority:
  "fst (map_status tc) =
     (if el_find tc ''failure'' \<noteq> None then ''failed''
      else if el_find tc ''error'' \<noteq> None then ''broken''
      else if el_find tc ''skipped'' \<noteq> None then ''skipped''
      else ''passed'')
   \<and> (\<forall>m. el_find tc ''failure'' = Some m \<longrightarrow>
          snd (map_status tc) =
            [(''message'', strip (or_str (el_get m ''message'') [])),
             (''trace'', strip (or_str (el_text m) []))])
   \<and> (\<forall>m. el_find tc ''failure'' = None \<and> el_find tc ''error'' = Some m \<longrightarrow>
          snd (map_status tc) =
            [(''message'', strip (or_str (el_get m ''message'') [])),
             (''trace'', strip (or_str (el_text m) []))])
   \<and> (\<forall>m. el_find tc ''failure'' = None \<and> el_find tc ''error'' = None
            \<and> el_find tc ''skipped'' = Some m \<longrightarrow>
          snd (map_status tc) =
            [(''message'',
              strip (if or_str (el_get m ''message'') [] \<noteq> [] then or_str (el_get m ''message'') []
                     else or_str (el_get m ''type'') [])),
             (''trace'', strip (or_str (el_text m) []))])
   \<and> (el_find tc ''failure'' = None \<and> el_find tc ''error'' = None
        \<and> el_find tc ''skipped'' = None \<longrightarrow> snd (map_status tc) = [])
   \<and> (\<forall>k v. (k, v) \<in> set (snd (map_status tc)) \<longrightarrow> trimmed v)
   \<and> (fst (map_status tc) \<noteq> ''passed'' \<longrightarrow>
        map_of (snd (map_status tc)) ''message'' \<noteq> None
        \<and> map_of (snd (map_status tc)) ''trace'' \<noteq> None)"
  by (auto simp: map_status_def marker_details_def or_str_def trimmed_strip
           split: option.splits)

text \<open>
  The amended claim on the examples of the specification: a skipped marker with no
  message and type \<open>ignored\<close>, and a failure marker with message \<open>X\<close> and body \<open>trace\<close>.
\<close>

theorem map_status_priority_witness:
  "el_find (Element ''testcase'' [] None
             [Element ''skipped'' [(''type'', ''ignored'')] None []]) ''failure'' = None
   \<and> el_find (Element ''testcase'' [] None
             [Element ''skipped'' [(''type'', ''ignored'')] None []]) ''error'' = None
   \<and> el_find (Element ''testcase'' [] None
             [Element ''skipped'' [(''type'', ''ignored'')] None []]) ''skipped''
       = Some (Element ''skipped'' [(''type'', ''ignored'')] None [])
   \<and> map_status (Element ''testcase'' [] None
                   [Element ''skipped'' [(''type'', ''ignored'')] None []])
       = (''skipped'', [(''message'', ''ignored''), (''trace'', [])])
   \<and> map_status (Element ''testcase'' [] None
                   [Element ''failure'' [(''message'', ''X'')] (Some ''trace'') []])
       = (''failed'', [(''message'', ''X''), (''trace'', ''trace'')])"
  using map_status_priority
          [of "Element ''testcase'' [] None [Element ''skipped'' [(''type'', ''ignored'')] None []]"]
        map_status_priority
          [of "Element ''testcase'' [] None
                 [Element ''failure'' [(''message'', ''X'')] (Some ''trace'') []]"]
  by (simp add: el_find_def el_get_def or_str_def strip_def isspace_def prod_eq_iff)

text \<open>
  Claim C3 as stated fails for a case with no marker: the detail is the empty dictionary,
  so its \<open>message\<close> and \<open>trace\<close> are missing, not empty strings.
\<close>

theorem map_status_passed_counterexample:
  "map_status (Element ''testcase'' [(''name'', ''t'')] None []) = (''passed'', [])
   \<and> map_of (snd (map_status (Element ''testcase'' [(''name'', ''t'')] None []))) ''message''
       \<noteq> Some []
   \<and> map_of (snd (map_status (Element ''testcase'' [(''name'', ''t'')] None []))) ''trace''
       \<noteq> Some []"
  by (simp add: map_status_def el_find_def)

section \<open>Timing\<close>

lemma result_timing:
  "(r_start (testcase_result digest fw sl spl splk cursor u tc),
    r_stop (testcase_result digest fw sl spl splk cursor u tc)) = testcase_timing tc cursor"
  by (simp add: testcase_result_def Let_def split: prod.splits)

lemma timing_cases:
  "testcase_timing tc cursor =
     (case to_ms (el_get tc ''time'') of None \<Rightarrow> (cursor, cursor + 1)
      | Some d \<Rightarrow> (cursor, cursor + d))"
  by (simp add: testcase_timing_def Let_def split: option.splits)

text \<open>
  Claim C2, as amended. The document of a case starts at the cursor. When the time
  attribute is absent or does not parse, \<open>stop = start + 1\<close>, so \<open>stop > start\<close>. When it
  gives a duration of \<open>d\<close> milliseconds, \<open>stop = start + d\<close>, so \<open>stop > start\<close> exactly
  when \<open>d > 0\<close> and \<open>stop \<ge> start\<close> exactly when \<open>d \<ge> 0\<close>.
\<close>

theorem result_span:
  assumes "r = testcase_result digest fw sl spl splk cursor u tc"
  shows "r_start r = cursor
     \<and> (el_get tc ''time'' = None \<or> (\<exists>s err. el_get tc ''time'' = Some s \<and> py_float s = Inl err)
          \<longrightarrow> r_stop r = r_start r + 1 \<and> r_start r < r_stop r)
     \<and> (\<forall>d. to_ms (el_get tc ''time'') = Some d
          \<longrightarrow> r_stop r = r_start r + d \<and> (r_start r < r_stop r \<longleftrightarrow> 0 < d)
              \<and> (r_start r \<le> r_stop r \<longleftrightarrow> 0 \<le> d))"
proof -
  have t: "(r_start r, r_stop r) =
           (case to_ms (el_get tc ''time'') of None \<Rightarrow> (cursor, cursor + 1)
            | Some d \<Rightarrow> (cursor, cursor + d))"
    using assms result_timing [of digest fw sl spl splk cursor u tc] by (simp add: timing_cases)
  have absent: "el_get tc ''time'' = None \<Longrightarrow> to_ms (el_get tc ''time'') = None"
    by (simp add: to_ms_def)
  have bad: "\<And>s err. el_get tc ''time'' = Some s \<Longrightarrow> py_float s = Inl err
               \<Longrightarrow> to_ms (el_get tc ''time'') = None"
    by (simp add: to_ms_def)
  show ?thesis
    using t absent bad by (auto split: option.splits)
qed

text \<open>The amended claim on a case with the time attribute \<open>abc\<close>, which does not parse.\<close>

theorem result_span_witness:
  "r_start (testcase_result (\<lambda>s. s) ''junit-xml'' [] [] [] 1700000000000 ''u''
              (Element ''testcase'' [(''name'', ''t''), (''time'', ''abc'')] None []))
     = 1700000000000
   \<and> py_float ''abc'' = Inl ValueError
   \<and> r_stop (testcase_result (\<lambda>s. s) ''junit-xml'' [] [] [] 1700000000000 ''u''
              (Element ''testcase'' [(''name'', ''t''), (''time'', ''abc'')] None []))
     = 1700000000001"
  using result_span [OF refl, of "\<lambda>s. s" "''junit-xml''" "[]" "[]" "[]" 1700000000000 "''u''"
          "Element ''testcase'' [(''name'', ''t''), (''time'', ''abc'')] None []"]
  by (simp add: el_get_def float_eval)

text \<open>
  Claim C2 as stated fails for a case with the time attribute \<open>0\<close>: its document has
  \<open>stop = start\<close>.
\<close>

theorem result_span_counterexample:
  "\<not> r_start (testcase_result (\<lambda>s. s) ''junit-xml'' [] [] [] 1700000000000 ''u''
              (Element ''testcase'' [(''name'', ''t''), (''time'', ''0'')] None []))
     < r_stop (testcase_result (\<lambda>s. s) ''junit-xml'' [] [] [] 1700000000000 ''u''
              (Element ''testcase'' [(''name'', ''t''), (''time'', ''0'')] None []))"
proof -
  have "testcase_timing (Element ''testcase'' [(''name'', ''t''), (''time'', ''0'')] None [])
          1700000000000 = (1700000000000, 1700000000000)"
    by (simp add: testcase_timing_def to_ms_def el_get_def float_eval)
  then show ?thesis
    using result_timing [of "\<lambda>s. s" "''junit-xml''" "[]" "[]" "[]" 1700000000000 "''u''"
            "Element ''testcase'' [(''name'', ''t''), (''time'', ''0'')] None []"]
    by simp
qed

lemma float_value_nonneg_exp: "0 \<le> e \<Longrightarrow> float_value m e = of_int (m * 2 ^ nat e)"
  by (simp add: float_value_def power_int_def)

lemma float_value_neg_exp: "e < 0 \<Longrightarrow> float_value m e = of_int m / of_int (2 ^ nat (- e))"
  by (simp add: float_value_def power_int_def inverse_eq_divide power_one_over)

lemma py_int_truncates: "py_int (Finite m e) = Inr (truncate (float_value m e))"
proof (cases "0 \<le> e")
  case True
  then show ?thesis
    by (simp add: float_value_nonneg_exp truncate_def del: of_int_mult of_int_power)
next
  case False
  then have e: "e < 0" by simp
  let ?k = "(2::int) ^ nat (- e)"
  have kpos: "0 < ?k" by simp
  show ?thesis
  proof (cases "0 \<le> m")
    case True
    then have "(0::rat) \<le> of_int m / of_int ?k" by simp
    moreover have "\<lfloor>(of_int m :: rat) / of_int ?k\<rfloor> = m div ?k"
      by (rule floor_divide_of_int_eq)
    moreover have "sgn m * (\<bar>m\<bar> div ?k) = m div ?k"
      using True by (cases "m = 0") (simp_all add: sgn_if)
    ultimately show ?thesis
      using e by (simp add: float_value_neg_exp truncate_def del: of_int_power)
  next
    case False
    then have neg: "m < 0" by simp
    then have "(of_int m :: rat) / of_int ?k < 0"
      using kpos by (simp add: divide_neg_pos del: of_int_power)
    moreover have "\<lceil>(of_int m :: rat) / of_int ?k\<rceil> = - ((- m) div ?k)"
    proof -
      have "\<lceil>(of_int m :: rat) / of_int ?k\<rceil> = - \<lfloor>- ((of_int m :: rat) / of_int ?k)\<rfloor>"
        by (simp add: ceiling_def)
      also have "- ((of_int m :: rat) / of_int ?k) = of_int (- m) / of_int ?k"
        by simp
      also have "\<lfloor>(of_int (- m) :: rat) / of_int ?k\<rfloor> = (- m) div ?k"
        by (rule floor_divide_of_int_eq)
      finally show ?thesis .
    qed
    moreover have "sgn m * (\<bar>m\<bar> div ?k) = - ((- m) div ?k)"
      using neg by (simp add: sgn_if)
    ultimately show ?thesis
      using e by (simp add: float_value_neg_exp truncate_def del: of_int_power)
  qed
qed

text \<open>
  Claim C4, as amended. The timing deriver never raises and starts at the cursor. When
  the time attribute parses as a float \<open>d\<close> and the float product \<open>d * 1000.0\<close> is finite,
  \<open>stop\<close> is \<open>start\<close> plus that product truncated towards zero. When the attribute is
  absent or does not parse, or the product is an infinity or a NaN, \<open>stop = start + 1\<close>.
\<close>

theorem testcase_timing_truncates:
  "testcase_timing tc cursor =
     (case el_get tc ''time'' of
        None \<Rightarrow> (cursor, cursor + 1)
      | Some s \<Rightarrow>
          (case py_float s of
             Inl err \<Rightarrow> (cursor, cursor + 1)
           | Inr d \<Rightarrow>
               (case float_mul d (Finite 1000 0) of
                  Finite m e \<Rightarrow> (cursor, cursor + truncate (float_value m e))
                | PosInf \<Rightarrow> (cursor, cursor + 1)
                | NegInf \<Rightarrow> (cursor, cursor + 1)
                | NaN \<Rightarrow> (cursor, cursor + 1))))"
  by (simp add: timing_cases to_ms_def py_int_truncates del: py_int.simps(1)
           split: option.splits sum.splits pyfloat.splits)

text \<open>The amended claim on the time attribute \<open>1.9999\<close>: 1999 milliseconds.\<close>

theorem testcase_timing_truncates_witness:
  "testcase_timing (Element ''testcase'' [(''name'', ''t''), (''time'', ''1.9999'')] None [])
     1700000000000 = (1700000000000, 1700000001999)"
  using testcase_timing_truncates
          [of "Element ''testcase'' [(''name'', ''t''), (''time'', ''1.9999'')] None []"
              1700000000000]
  by (simp add: el_get_def float_eval float_value_def truncate_def power_int_def floor_eq_iff power_one_over)

text \<open>
  Claim C4 as stated fails for the time attribute \<open>0.0019\<close>: the float product is 1.9
  (to the precision of the floats), the code adds 1 millisecond, rounding would add 2.
\<close>

theorem testcase_timing_round_counterexample:
  "py_float ''0.0019'' = Inr (Finite 8762203435012037 (- 62))
   \<and> testcase_timing (Element ''testcase'' [(''name'', ''t''), (''time'', ''0.0019'')] None [])
        1700000000000 = (1700000000000, 1700000000001)
   \<and> spec_timing (float_value 8762203435012037 (- 62)) 1700000000000
        = (1700000000000, 1700000000002)
   \<and> testcase_timing (Element ''testcase'' [(''name'', ''t''), (''time'', ''0.0019'')] None [])
        1700000000000
       \<noteq> spec_timing (float_value 8762203435012037 (- 62)) 1700000000000"
proof -
  have code: "testcase_timing
                (Element ''testcase'' [(''name'', ''t''), (''time'', ''0.0019'')] None [])
                1700000000000 = (1700000000000, 1700000000001)"
    by (simp add: testcase_timing_def to_ms_def el_get_def float_eval)
  have spec: "spec_timing (float_value 8762203435012037 (- 62)) 1700000000000
                = (1700000000000, 1700000000002)"
    by (simp add: spec_timing_def float_value_def power_int_def round_def floor_eq_iff
          power_one_over)
  have parse: "py_float ''0.0019'' = Inr (Finite 8762203435012037 (- 62))"
    by (simp add: float_eval)
  show ?thesis
    unfolding code spec using parse by simp
qed

section \<open>The command line\<close>

text \<open>
  Claim C9, on the code. With no file found, \<open>main\<close> evaluates the name \<open>sys\<close>, which the
  module does not import: the process ends with an uncaught \<open>NameError\<close> and status 1,
  not with status 2, and the message is not printed. No document is written.
\<close>

theorem main_no_files:
  "main digest a [] w = (Uncaught NameError, w)
   \<and> exit_status (fst (main digest a [] w)) = 1
   \<and> exit_status (fst (main digest a [] w)) \<noteq> 2
   \<and> stderr (snd (main digest a [] w)) = stderr w
   \<and> files (snd (main digest a [] w)) = files w"
  by (simp add: main_def lookup_name_def module_names_def builtin_names_def)

text \<open>With files found and all of them converted, \<open>main\<close> returns: status 0.\<close>

lemma main_success:
  "found \<noteq> [] \<Longrightarrow> convert_files digest a found w = (None, w1)
     \<Longrightarrow> exit_status (fst (main digest a found w)) = 0"
  by (simp add: main_def Let_def)

section \<open>Names and the history identifier\<close>

lemma or_str_nonempty: "d \<noteq> [] \<Longrightarrow> or_str x d \<noteq> []"
  by (simp add: or_str_def split: option.splits)

lemma join_last_nonempty: "n \<noteq> [] \<Longrightarrow> join sep (filter (\<lambda>x. x \<noteq> []) [p, c, n]) \<noteq> []"
  by simp

text \<open>
  Claim C10. The name of a case is never empty: an absent or empty name attribute becomes
  \<open>test\<close>. So the name, the full name and the \<open>testMethod\<close> label of the document are
  not empty, the full name is the join of the non-empty parts, and the history
  identifier is the hash of the full name: the fallback \<open>classname + "::" + name\<close> is
  never used.
\<close>

theorem case_name_never_empty:
  "r_name (testcase_result digest fw sl spl splk cursor u tc) \<noteq> []
   \<and> r_fullName (testcase_result digest fw sl spl splk cursor u tc) \<noteq> []
   \<and> Label ''testMethod'' (r_name (testcase_result digest fw sl spl splk cursor u tc))
         \<in> set (r_labels (testcase_result digest fw sl spl splk cursor u tc))
   \<and> (el_get tc ''name'' = None \<or> el_get tc ''name'' = Some []
         \<longrightarrow> r_name (testcase_result digest fw sl spl splk cursor u tc) = ''test'')
   \<and> r_fullName (testcase_result digest fw sl spl splk cursor u tc)
       = join ''.'' (filter (\<lambda>x. x \<noteq> [])
           [fst (split_classname (or_str (el_get tc ''classname'') [])),
            snd (split_classname (or_str (el_get tc ''classname'') [])),
            or_str (el_get tc ''name'') ''test''])
   \<and> r_historyId (testcase_result digest fw sl spl splk cursor u tc)
       = stable_hash digest (r_fullName (testcase_result digest fw sl spl splk cursor u tc))"
proof -
  let ?n = "or_str (el_get tc ''name'') ''test''"
  have n: "?n \<noteq> []" by (simp add: or_str_nonempty)
  have t: "el_get tc ''name'' = None \<or> el_get tc ''name'' = Some [] \<Longrightarrow> ?n = ''test''"
    by (auto simp: or_str_def)
  obtain p c where pc: "split_classname (or_str (el_get tc ''classname'') []) = (p, c)"
    by (cases "split_classname (or_str (el_get tc ''classname'') [])")
  have j: "join ''.'' (filter (\<lambda>x. x \<noteq> []) [p, c, ?n]) \<noteq> []"
    using n by (rule join_last_nonempty)
  show ?thesis
    using n t j pc
    by (simp add: testcase_result_def Let_def split: prod.splits)
qed

text \<open>Claim C10 on a case with a class name and no name attribute.\<close>

theorem case_name_never_empty_witness:
  "el_get (Element ''testcase'' [(''classname'', ''pkg.Cls'')] None []) ''name'' = None
   \<and> r_name (testcase_result (\<lambda>s. s) ''junit-xml'' [] [] [] 1700000000000 ''u''
        (Element ''testcase'' [(''classname'', ''pkg.Cls'')] None [])) = ''test''
   \<and> r_fullName (testcase_result (\<lambda>s. s) ''junit-xml'' [] [] [] 1700000000000 ''u''
        (Element ''testcase'' [(''classname'', ''pkg.Cls'')] None [])) = ''pkg.Cls.test''"
  using case_name_never_empty [of "\<lambda>s. s" "''junit-xml''" "[]" "[]" "[]" 1700000000000 "''u''"
          "Element ''testcase'' [(''classname'', ''pkg.Cls'')] None []"]
  by (simp add: el_get_def or_str_def split_classname_def rsplit_dot_def)

lemma history_id_eq:
  "r_historyId (testcase_result digest fw sl spl splk cursor u tc)
     = stable_hash digest
         (let classname = or_str (el_get tc ''classname'') [];
              name = or_str (el_get tc ''name'') ''test'';
              full_name = join ''.'' (filter (\<lambda>x. x \<noteq> [])
                            [fst (split_classname classname), snd (split_classname classname), name])
          in if full_name \<noteq> [] then full_name else classname @ ''::'' @ name)"
  by (simp add: testcase_result_def Let_def split: prod.splits)

text \<open>
  Claim C5. The history identifier is the hash of the fully-qualified name of the case
  (of \<open>classname + "::" + name\<close> if that join is empty). Two cases with the same class
  name and name get the same history identifier, whatever the identifier drawn for the
  document, the cursor (the clock and the durations before), the framework name and the
  labels and links of the suite.
\<close>

theorem history_id_deterministic:
  assumes "or_str (el_get tc1 ''classname'') [] = or_str (el_get tc2 ''classname'') []"
      and "or_str (el_get tc1 ''name'') ''test'' = or_str (el_get tc2 ''name'') ''test''"
  shows "r_historyId (testcase_result digest fw1 sl1 spl1 splk1 cursor1 u1 tc1)
           = r_historyId (testcase_result digest fw2 sl2 spl2 splk2 cursor2 u2 tc2)
         \<and> r_historyId (testcase_result digest fw1 sl1 spl1 splk1 cursor1 u1 tc1)
           = stable_hash digest
               (let classname = or_str (el_get tc1 ''classname'') [];
                    name = or_str (el_get tc1 ''name'') ''test'';
                    full_name = join ''.'' (filter (\<lambda>x. x \<noteq> [])
                       [fst (split_classname classname), snd (split_classname classname), name])
                in if full_name \<noteq> [] then full_name else classname @ ''::'' @ name)"
  using assms by (simp only: history_id_eq)

text \<open>
  Claim C5 on two cases named \<open>pkg.Cls.t\<close>, converted with different identifiers,
  cursors, durations, outcomes and suites.
\<close>

theorem history_id_deterministic_witness:
  "or_str (el_get (Element ''testcase'' [(''classname'', ''pkg.Cls''), (''name'', ''t''),
                                        (''time'', ''0.5'')] None []) ''classname'') []
     = or_str (el_get (Element ''testcase'' [(''name'', ''t''), (''classname'', ''pkg.Cls'')]
                         None [Element ''failure'' [] None []]) ''classname'') []
   \<and> or_str (el_get (Element ''testcase'' [(''classname'', ''pkg.Cls''), (''name'', ''t''),
                                        (''time'', ''0.5'')] None []) ''name'') ''test''
     = or_str (el_get (Element ''testcase'' [(''name'', ''t''), (''classname'', ''pkg.Cls'')]
                         None [Element ''failure'' [] None []]) ''name'') ''test''
   \<and> r_historyId (testcase_result (\<lambda>s. s) ''junit-xml'' [] [] [] 1700000000000 ''u''
        (Element ''testcase'' [(''classname'', ''pkg.Cls''), (''name'', ''t''),
                               (''time'', ''0.5'')] None []))
     = r_historyId (testcase_result (\<lambda>s. s) ''other'' [Label ''suite'' ''S''] [] [] 42 ''uuu''
        (Element ''testcase'' [(''name'', ''t''), (''classname'', ''pkg.Cls'')]
           None [Element ''failure'' [] None []]))"
  using history_id_deterministic
    [of "Element ''testcase'' [(''classname'', ''pkg.Cls''), (''name'', ''t''),
                               (''time'', ''0.5'')] None []"
        "Element ''testcase'' [(''name'', ''t''), (''classname'', ''pkg.Cls'')]
           None [Element ''failure'' [] None []]"
        "\<lambda>s. s" "''junit-xml''" "[]" "[]" "[]" 1700000000000 "''u''"
        "''other''" "[Label ''suite'' ''S'']" "[]" "[]" 42 "''uuu''"]
  by (simp add: el_get_def or_str_def)

section \<open>Suite labels\<close>

lemma split_scan_nonempty: "split_scan sep cur s \<noteq> []"
  by (induction sep cur s rule: split_scan.induct) auto

lemma join_cons: "ys \<noteq> [] \<Longrightarrow> join sep (x # ys) = x @ sep @ join sep ys"
  by (cases ys) simp_all

lemma startswith_decompose:
  "sep \<noteq> [] \<Longrightarrow> startswith (c # cs) sep \<Longrightarrow> c # cs = sep @ drop (length sep - 1) cs"
proof -
  assume ne: "sep \<noteq> []" and sw: "startswith (c # cs) sep"
  have "c # cs = take (length sep) (c # cs) @ drop (length sep) (c # cs)" by simp
  also have "take (length sep) (c # cs) = sep" using sw by (simp add: startswith_def)
  also have "drop (length sep) (c # cs) = drop (length sep - 1) cs"
    using ne by (cases sep) simp_all
  finally show ?thesis .
qed

lemma join_split_scan: "sep \<noteq> [] \<Longrightarrow> join sep (split_scan sep cur s) = cur @ s"
proof (induction sep cur s rule: split_scan.induct)
  case (1 sep cur)
  then show ?case by simp
next
  case (2 sep cur c cs)
  show ?case
  proof (cases "startswith (c # cs) sep")
    case True
    have "join sep (split_scan sep cur (c # cs))
            = cur @ sep @ join sep (split_scan sep [] (drop (length sep - 1) cs))"
      using True by (simp add: join_cons split_scan_nonempty)
    also have "\<dots> = cur @ sep @ drop (length sep - 1) cs"
      using 2 True by simp
    also have "\<dots> = cur @ (c # cs)"
      using startswith_decompose [OF "2.prems" True] by simp
    finally show ?thesis .
  next
    case False
    then show ?thesis using 2 by simp
  qed
qed

text \<open>
  Claim C6. An empty suite name gives no label. Otherwise the name is split on the
  separator (joining the pieces with the separator gives the name back) and each piece
  is trimmed: three parts or more give \<open>parentSuite\<close>, \<open>suite\<close> and \<open>subSuite\<close>, the
  last one the join of the parts from the third on; two parts give \<open>parentSuite\<close> and
  \<open>suite\<close>; one non-empty part gives \<open>parentSuite\<close>, the default parent, and \<open>suite\<close>.
\<close>

theorem derive_suite_labels_hierarchy:
  "derive_suite_labels [] sep default_parent = Inr []
   \<and> (\<forall>raw parts. ts_name \<noteq> [] \<and> split ts_name sep = Inr raw \<and> parts = map strip raw \<longrightarrow>
         join sep raw = ts_name
         \<and> (\<forall>p \<in> set parts. trimmed p)
         \<and> (3 \<le> length parts \<longrightarrow>
              derive_suite_labels ts_name sep default_parent =
                Inr [Label ''parentSuite'' (parts ! 0), Label ''suite'' (parts ! 1),
                     Label ''subSuite'' (join sep (drop 2 parts))])
         \<and> (length parts = 2 \<longrightarrow>
              derive_suite_labels ts_name sep default_parent =
                Inr [Label ''parentSuite'' (parts ! 0), Label ''suite'' (parts ! 1)])
         \<and> (length parts = 1 \<and> parts ! 0 \<noteq> [] \<longrightarrow>
              derive_suite_labels ts_name sep default_parent =
                Inr [Label ''parentSuite'' default_parent, Label ''suite'' (parts ! 0)]))"
proof (intro conjI allI impI)
  show "derive_suite_labels [] sep default_parent = Inr []"
    by (simp add: derive_suite_labels_def)
next
  fix raw parts
  assume h: "ts_name \<noteq> [] \<and> split ts_name sep = Inr raw \<and> parts = map strip raw"
  then have sep: "sep \<noteq> []" and raw: "raw = split_scan sep [] ts_name"
    by (auto simp: split_def split: if_splits)
  show "join sep raw = ts_name"
    using sep raw by (simp add: join_split_scan)
  show "\<forall>p \<in> set parts. trimmed p"
    using h by (auto simp: trimmed_strip)
  have e: "(if ts_name \<noteq> [] then map_sum id (map strip) (split ts_name sep) else Inr [])
             = Inr parts"
    using h by simp
  have d: "derive_suite_labels ts_name sep default_parent =
      Inr (if 3 \<le> length parts
               then [Label ''parentSuite'' (parts ! 0), Label ''suite'' (parts ! 1),
                     Label ''subSuite'' (join sep (drop 2 parts))]
               else if length parts = 2
               then [Label ''parentSuite'' (parts ! 0), Label ''suite'' (parts ! 1)]
               else if length parts = 1 \<and> parts ! 0 \<noteq> []
               then [Label ''parentSuite'' default_parent, Label ''suite'' (parts ! 0)]
               else [])"
    unfolding derive_suite_labels_def e by (simp only: sum.case)
  show "3 \<le> length parts \<Longrightarrow> derive_suite_labels ts_name sep default_parent =
                Inr [Label ''parentSuite'' (parts ! 0), Label ''suite'' (parts ! 1),
                     Label ''subSuite'' (join sep (drop 2 parts))]"
    using d by simp
  show "length parts = 2 \<Longrightarrow> derive_suite_labels ts_name sep default_parent =
                Inr [Label ''parentSuite'' (parts ! 0), Label ''suite'' (parts ! 1)]"
    using d by simp
  show "length parts = 1 \<and> parts ! 0 \<noteq> [] \<Longrightarrow> derive_suite_labels ts_name sep default_parent =
                Inr [Label ''parentSuite'' default_parent, Label ''suite'' (parts ! 0)]"
    using d by simp
qed

text \<open>Claim C6 on the examples of the specification.\<close>

theorem derive_suite_labels_hierarchy_witness:
  "split ''Web / Checkout / Cart'' '' / '' = Inr [''Web'', ''Checkout'', ''Cart'']
   \<and> derive_suite_labels ''Web / Checkout / Cart'' '' / '' ''Tests''
       = Inr [Label ''parentSuite'' ''Web'', Label ''suite'' ''Checkout'',
              Label ''subSuite'' ''Cart'']
   \<and> derive_suite_labels [] '' / '' ''Tests'' = Inr []"
  using derive_suite_labels_hierarchy [of "'' / ''" "''Tests''" "''Web / Checkout / Cart''"]
  by (simp add: split_def startswith_def strip_def isspace_def)

section \<open>The loop over the test cases\<close>

lemma result_uuid [simp]: "r_uuid (testcase_result digest fw sl spl splk cursor u tc) = u"
  by (simp add: testcase_result_def Let_def split: prod.splits)

lemma length_case_results [simp]:
  "length (case_results digest fw sl spl splk ss us n ls tcs) = length tcs"
  by (induction tcs arbitrary: n ls) (simp_all add: Let_def)

lemma uuids_case_results:
  "map r_uuid (case_results digest fw sl spl splk ss us n ls tcs) = map us [n ..< n + length tcs]"
proof (induction tcs arbitrary: n ls)
  case Nil
  then show ?case by simp
next
  case (Cons tc tcs)
  have "[n ..< n + length (tc # tcs)] = n # [Suc n ..< Suc n + length tcs]"
    by (simp add: upt_rec)
  then show ?case by (simp add: Let_def Cons.IH)
qed

lemma nth_case_results:
  "i < length tcs \<Longrightarrow>
     \<exists>cursor. case_results digest fw sl spl splk ss us n ls tcs ! i
                 = testcase_result digest fw sl spl splk cursor (us (n + i)) (tcs ! i)"
proof (induction tcs arbitrary: n ls i)
  case Nil
  then show ?case by simp
next
  case (Cons tc tcs)
  show ?case
  proof (cases i)
    case 0
    then show ?thesis by (auto simp: Let_def)
  next
    case (Suc j)
    then have "j < length tcs" using Cons.prems by simp
    from Cons.IH [OF this, of "Suc n"] show ?thesis
      using Suc by (simp add: Let_def split del: if_split)
  qed
qed

lemma first_case_result:
  "tcs \<noteq> [] \<Longrightarrow>
     r_start (case_results digest fw sl spl splk ss us n ls tcs ! 0) = (if ls \<noteq> 0 then ls else ss)"
  using result_timing [of digest fw sl spl splk "if ls \<noteq> 0 then ls else ss" "us n" "hd tcs"]
  by (cases tcs) (auto simp: Let_def timing_cases split: option.splits)

lemma next_case_result:
  "Suc i < length tcs \<Longrightarrow>
     r_start (case_results digest fw sl spl splk ss us n ls tcs ! Suc i)
       = (if r_stop (case_results digest fw sl spl splk ss us n ls tcs ! i) \<noteq> 0
          then r_stop (case_results digest fw sl spl splk ss us n ls tcs ! i) else ss)"
proof (induction tcs arbitrary: n ls i)
  case Nil
  then show ?case by simp
next
  case (Cons tc tcs)
  let ?r = "testcase_result digest fw sl spl splk (if ls \<noteq> 0 then ls else ss) (us n) tc"
  show ?case
  proof (cases i)
    case 0
    then have "tcs \<noteq> []" using Cons.prems by auto
    from first_case_result [OF this, of digest fw sl spl splk ss us "Suc n" "r_stop ?r"]
    show ?thesis using 0 by (simp add: Let_def)
  next
    case (Suc j)
    then have "Suc j < length tcs" using Cons.prems by simp
    from Cons.IH [OF this, of "Suc n" "r_stop ?r"] show ?thesis using Suc by (simp add: Let_def)
  qed
qed

lemma convert_testcases_eq:
  "snd (convert_testcases digest fw sl spl splk ss tcs (ls, c, w)) =
     (let rs = case_results digest fw sl spl splk ss (uuid_source w) (uuid_calls w) ls tcs
      in (c\<lparr> c_children := c_children c @ map r_uuid rs,
             c_stop := foldl max (c_stop c) (map r_stop rs) \<rparr>,
          w\<lparr> uuid_calls := uuid_calls w + length tcs,
             files := foldl put_result (files w) rs \<rparr>))"
proof (induction tcs arbitrary: ls c w)
  case Nil
  then show ?case by simp
next
  case (Cons tc tcs)
  show ?case
    by (simp add: Cons.IH uuid4_def write_file_def Let_def put_result_def
             split del: if_split)
qed

section \<open>The container of a suite\<close>

lemma foldl_max_ge: "a \<le> foldl max a (xs :: int list)"
proof (induction xs arbitrary: a)
  case Nil
  then show ?case by simp
next
  case (Cons x xs)
  have "a \<le> max a x" by simp
  also have "max a x \<le> foldl max (max a x) xs" by (rule Cons.IH)
  finally show ?case by simp
qed

lemma foldl_max_upper: "x \<in> set xs \<Longrightarrow> x \<le> foldl max a (xs :: int list)"
proof (induction xs arbitrary: a)
  case Nil
  then show ?case by simp
next
  case (Cons y ys)
  show ?case
  proof (cases "x = y")
    case True
    have "x \<le> max a y" using True by simp
    also have "\<dots> \<le> foldl max (max a y) ys" by (rule foldl_max_ge)
    finally show ?thesis by simp
  next
    case False
    then have "x \<in> set ys" using Cons.prems by simp
    then show ?thesis using Cons.IH by simp
  qed
qed

lemma foldl_max_mem: "foldl max a (xs :: int list) \<in> insert a (set xs)"
proof (induction xs arbitrary: a)
  case Nil
  then show ?case by simp
next
  case (Cons y ys)
  have "foldl max (max a y) ys \<in> insert (max a y) (set ys)" by (rule Cons.IH)
  moreover have "max a y = a \<or> max a y = y" by (simp add: max_def)
  ultimately show ?case by auto
qed

lemma foldl_max_Max: "foldl max a (xs :: int list) = Max (insert a (set xs))"
proof -
  have "Max (insert a (set xs)) = foldl max a xs"
  proof (rule Max_eqI)
    show "finite (insert a (set xs))" by simp
    show "\<And>y. y \<in> insert a (set xs) \<Longrightarrow> y \<le> foldl max a xs"
      using foldl_max_ge foldl_max_upper by auto
    show "foldl max a xs \<in> insert a (set xs)" by (rule foldl_max_mem)
  qed
  then show ?thesis by simp
qed

lemma result_name_not_container: "u @ ''-result.json'' \<noteq> s @ ''-container.json''"
proof
  assume "u @ ''-result.json'' = s @ ''-container.json''"
  then have "rev (u @ ''-result.json'') = rev (s @ ''-container.json'')" by simp
  then show False by simp
qed

lemma foldl_put_result_lookup:
  "distinct (map r_uuid rs) \<Longrightarrow> i < length rs \<Longrightarrow>
     foldl put_result f rs (r_uuid (rs ! i) @ ''-result.json'') = Some (ResultDoc (rs ! i))"
proof (induction rs arbitrary: i rule: rev_induct)
  case Nil
  then show ?case by simp
next
  case (snoc r rs)
  show ?case
  proof (cases "i < length rs")
    case True
    then have "rs ! i \<in> set rs" by simp
    then have "r_uuid (rs ! i) \<in> r_uuid ` set rs" by (rule imageI)
    moreover have "r_uuid r \<notin> r_uuid ` set rs" using snoc.prems(1) by simp
    ultimately have ne: "r_uuid (rs ! i) \<noteq> r_uuid r" by metis
    have d: "distinct (map r_uuid rs)" using snoc.prems(1) by simp
    show ?thesis
      using True ne snoc.IH [OF d True] by (simp add: put_result_def nth_append)
  next
    case False
    then have "i = length rs" using snoc.prems(2) by simp
    then show ?thesis by (simp add: put_result_def)
  qed
qed

lemma convert_suite_eq:
  "convert_suite digest stem sep dp fw ts w =
     (let ts_name = or_str (el_get ts ''name'') stem;
          sid = uuid_source w (uuid_calls w);
          ss = clock_source w (clock_calls w)
      in case derive_suite_labels ts_name sep dp of
           Inl err \<Rightarrow>
             (Some err, w\<lparr>uuid_calls := Suc (uuid_calls w), clock_calls := Suc (clock_calls w)\<rparr>)
         | Inr sl \<Rightarrow>
             (let sp = map_properties_to_labels_links_params
                         (read_properties (el_find ts ''properties''));
                  rs = case_results digest fw sl (fst sp) (fst (snd sp)) ss (uuid_source w)
                         (Suc (uuid_calls w)) ss (el_findall ts ''testcase'')
              in (None,
                  w\<lparr> uuid_calls := Suc (uuid_calls w) + length (el_findall ts ''testcase''),
                     clock_calls := Suc (clock_calls w),
                     files := (foldl put_result (files w) rs)
                                (sid @ ''-container.json'' \<mapsto>
                                   ContainerDoc
                                     \<lparr> c_uuid = sid, c_name = ts_name,
                                       c_children = map r_uuid rs,
                                       c_befores = [], c_afters = [], c_links = [],
                                       c_start = ss,
                                       c_stop = foldl max ss (map r_stop rs) \<rparr>) \<rparr>)))"
  by (simp add: convert_suite_def uuid4_def ms_now_def write_file_def Let_def case_prod_beta
        convert_testcases_eq split: sum.splits)

lemma example_world_inj: "inj (uuid_source (example_world now))"
proof (rule injI)
  fix x y
  assume "uuid_source (example_world now) x = uuid_source (example_world now) y"
  then have "length (replicate (Suc x) CHR ''u'') = length (replicate (Suc y) CHR ''u'')"
    by (simp add: example_world_def)
  then show "x = y" by simp
qed

text \<open>
  Claim C1, as amended. When the identifiers drawn are distinct and the conversion of a
  suite with \<open>k\<close> cases ends without an exception, the container written for the suite
  lists \<open>k\<close> children, the identifiers of the documents of the cases in input order;
  the identifiers are distinct, each is the identifier of exactly one of these
  documents, and that document is in the file named by it. The container starts at the
  clock value read for the suite, and its stop is the maximum of its start and of the
  stops of all children: it is at least the start, and equal to it with no case.
\<close>

theorem suite_container:
  assumes fresh: "inj (uuid_source w)"
      and ok: "convert_suite digest stem sep dp fw ts w = (None, w')"
  shows "\<exists>c rs.
           files w' (uuid_source w (uuid_calls w) @ ''-container.json'') = Some (ContainerDoc c)
         \<and> length rs = length (el_findall ts ''testcase'')
         \<and> c_children c = map r_uuid rs
         \<and> distinct (c_children c)
         \<and> (\<forall>i < length rs. \<forall>j < length rs. r_uuid (rs ! j) = c_children c ! i \<longrightarrow> j = i)
         \<and> (\<forall>i < length rs.
               files w' (c_children c ! i @ ''-result.json'') = Some (ResultDoc (rs ! i))
               \<and> (\<exists>cursor sl spl splk.
                     rs ! i = testcase_result digest fw sl spl splk cursor (c_children c ! i)
                                (el_findall ts ''testcase'' ! i)))
         \<and> c_start c = clock_source w (clock_calls w)
         \<and> c_stop c = Max (insert (c_start c) (set (map r_stop rs)))
         \<and> c_start c \<le> c_stop c
         \<and> (rs = [] \<longrightarrow> c_stop c = c_start c)"
proof -
  let ?tcs = "el_findall ts ''testcase''"
  let ?name = "or_str (el_get ts ''name'') stem"
  let ?sid = "uuid_source w (uuid_calls w)"
  let ?ss = "clock_source w (clock_calls w)"
  obtain sl where sl: "derive_suite_labels ?name sep dp = Inr sl"
    using ok by (cases "derive_suite_labels ?name sep dp")
                (simp_all add: convert_suite_eq Let_def)
  define sp where "sp = map_properties_to_labels_links_params
                          (read_properties (el_find ts ''properties''))"
  define rs where "rs = case_results digest fw sl (fst sp) (fst (snd sp)) ?ss (uuid_source w)
                          (Suc (uuid_calls w)) ?ss ?tcs"
  define c where "c = \<lparr> c_uuid = ?sid, c_name = ?name, c_children = map r_uuid rs,
                         c_befores = [], c_afters = [], c_links = [],
                         c_start = ?ss, c_stop = foldl max ?ss (map r_stop rs) \<rparr>"
  have w': "w' = snd (convert_suite digest stem sep dp fw ts w)"
    using ok by simp
  have fw': "files w' = (foldl put_result (files w) rs)(?sid @ ''-container.json'' \<mapsto> ContainerDoc c)"
    unfolding w' using sl by (simp add: convert_suite_eq Let_def sp_def rs_def c_def)
  have len: "length rs = length ?tcs" by (simp add: rs_def)
  have ids: "map r_uuid rs = map (uuid_source w) [Suc (uuid_calls w) ..< Suc (uuid_calls w) + length ?tcs]"
    by (simp add: rs_def uuids_case_results)
  have dist: "distinct (map r_uuid rs)"
    unfolding ids using fresh by (simp add: distinct_map inj_on_def inj_def)
  have look: "files w' (map r_uuid rs ! i @ ''-result.json'') = Some (ResultDoc (rs ! i))"
    if "i < length rs" for i
  proof -
    have "files w' (r_uuid (rs ! i) @ ''-result.json'')
            = foldl put_result (files w) rs (r_uuid (rs ! i) @ ''-result.json'')"
      by (simp add: fw' result_name_not_container)
    also have "\<dots> = Some (ResultDoc (rs ! i))"
      using dist that by (rule foldl_put_result_lookup)
    finally show ?thesis using that by simp
  qed
  have form: "\<exists>cursor sl spl splk.
                 rs ! i = testcase_result digest fw sl spl splk cursor (map r_uuid rs ! i) (?tcs ! i)"
    if "i < length rs" for i
  proof -
    have i: "i < length ?tcs" using that len by simp
    from nth_case_results [OF i, of digest fw sl "fst sp" "fst (snd sp)" ?ss "uuid_source w"
           "Suc (uuid_calls w)" ?ss]
    obtain cursor where
      r: "rs ! i = testcase_result digest fw sl (fst sp) (fst (snd sp)) cursor
                     (uuid_source w (Suc (uuid_calls w) + i)) (?tcs ! i)"
      by (auto simp: rs_def)
    have "map r_uuid rs ! i = uuid_source w (Suc (uuid_calls w) + i)"
      using that r by simp
    then show ?thesis using r by metis
  qed
  have uniq: "\<forall>i < length rs. \<forall>j < length rs. r_uuid (rs ! j) = map r_uuid rs ! i \<longrightarrow> j = i"
    using dist by (auto simp: distinct_conv_nth)
  have stop: "c_stop c = Max (insert (c_start c) (set (map r_stop rs)))"
    by (simp add: c_def foldl_max_Max)
  have ge: "c_start c \<le> c_stop c"
    using foldl_max_ge [of ?ss "map r_stop rs"] by (simp add: c_def)
  have empty: "rs = [] \<longrightarrow> c_stop c = c_start c"
    by (simp add: c_def)
  have "files w' (?sid @ ''-container.json'') = Some (ContainerDoc c)"
    by (simp add: fw')
  moreover have "c_children c = map r_uuid rs" by (simp add: c_def)
  moreover have "c_start c = ?ss" by (simp add: c_def)
  ultimately show ?thesis
    using len dist uniq look form stop ge empty
    by (intro exI [of _ c] exI [of _ rs]) simp
qed

lemma example_suite_labels:
  "derive_suite_labels (or_str (el_get example_suite ''name'') ''report'') '' / '' ''Tests''
     = Inr [Label ''parentSuite'' ''Web'', Label ''suite'' ''Checkout'',
            Label ''subSuite'' ''Cart'']"
  by (simp add: example_suite_def derive_suite_labels_def split_def startswith_def strip_def
        isspace_def or_str_def el_get_def)

lemma example_suite_ok:
  "fst (convert_suite (\<lambda>s. s) ''report'' '' / '' ''Tests'' ''junit-xml'' example_suite
       (example_world 1700000000000)) = None"
  by (simp only: convert_suite_eq Let_def example_suite_labels sum.case fst_conv)

lemma example_suite_converts:
  "convert_suite (\<lambda>s. s) ''report'' '' / '' ''Tests'' ''junit-xml'' example_suite
       (example_world 1700000000000)
   = (None, snd (convert_suite (\<lambda>s. s) ''report'' '' / '' ''Tests'' ''junit-xml'' example_suite
                   (example_world 1700000000000)))"
  by (rule prod_eqI) (simp_all only: fst_conv snd_conv example_suite_ok)


text \<open>
  The amended claim C1 on \<open>example_suite\<close>, with the clock at 1700000000000: the
  identifiers \<open>u\<close>, \<open>uu\<close>, \<open>uuu\<close> are distinct and the suite converts.
\<close>

theorem suite_container_witness:
  "inj (uuid_source (example_world 1700000000000))
   \<and> fst (convert_suite (\<lambda>s. s) ''report'' '' / '' ''Tests'' ''junit-xml'' example_suite
            (example_world 1700000000000)) = None
   \<and> (\<exists>c. files (snd (convert_suite (\<lambda>s. s) ''report'' '' / '' ''Tests'' ''junit-xml''
                         example_suite (example_world 1700000000000)))
             ''u-container.json'' = Some (ContainerDoc c)
          \<and> length (c_children c) = 2
          \<and> distinct (c_children c)
          \<and> c_start c = 1700000000000
          \<and> c_start c \<le> c_stop c)"
proof (intro conjI)
  let ?w = "example_world 1700000000000"
  let ?w' = "snd (convert_suite (\<lambda>s. s) ''report'' '' / '' ''Tests'' ''junit-xml''
                    example_suite ?w)"
  show "inj (uuid_source ?w)" by (rule example_world_inj)
  show "fst (convert_suite (\<lambda>s. s) ''report'' '' / '' ''Tests'' ''junit-xml''
                   example_suite ?w) = None"
    by (rule example_suite_ok)
  have n: "length (el_findall example_suite ''testcase'') = 2"
    by (simp add: example_suite_def el_findall_def)
  have u: "uuid_source ?w (uuid_calls ?w) @ ''-container.json'' = ''u-container.json''"
    and k: "clock_source ?w (clock_calls ?w) = 1700000000000"
    by (simp_all add: example_world_def)
  note t = suite_container [OF example_world_inj example_suite_converts, unfolded u k n]
  from t show "\<exists>c. files ?w' ''u-container.json'' = Some (ContainerDoc c)
          \<and> length (c_children c) = 2
          \<and> distinct (c_children c)
          \<and> c_start c = 1700000000000
          \<and> c_start c \<le> c_stop c"
  proof (elim exE conjE)
    fix c rs
    assume "files ?w' ''u-container.json'' = Some (ContainerDoc c)"
       and "length rs = 2"
       and "c_children c = map r_uuid rs"
       and "distinct (c_children c)"
       and "c_start c = 1700000000000"
       and "c_start c \<le> c_stop c"
    then show ?thesis by (intro exI [of _ c]) simp
  qed
qed

lemmas suite_eval = convert_suite_eq Let_def example_world_def derive_suite_labels_def split_def
  startswith_def strip_def isspace_def or_str_def el_get_def el_find_def el_findall_def
  read_properties_def collect_properties_def map_properties_to_labels_links_params_def
  testcase_result_def testcase_timing_def to_ms_def map_status_def split_classname_def
  rsplit_dot_def stable_hash_def put_result_def start_of_def stop_of_def children_of_def

text \<open>
  Claim C1 as stated fails for a suite whose only case has the time \<open>-1\<close>: the stop of
  the container stays at its start, above the stop of its only child.
\<close>

theorem suite_container_counterexample:
  "children_of (files (snd (convert_suite (\<lambda>s. s) ''report'' '' / '' ''Tests'' ''junit-xml''
                              negative_suite (example_world 1700000000000)))
                  ''u-container.json'') = Some [''uu'']
   \<and> stop_of (files (snd (convert_suite (\<lambda>s. s) ''report'' '' / '' ''Tests'' ''junit-xml''
                              negative_suite (example_world 1700000000000)))
                  ''uu-result.json'') = Some 1699999999000
   \<and> stop_of (files (snd (convert_suite (\<lambda>s. s) ''report'' '' / '' ''Tests'' ''junit-xml''
                              negative_suite (example_world 1700000000000)))
                  ''u-container.json'') = Some 1700000000000
   \<and> stop_of (files (snd (convert_suite (\<lambda>s. s) ''report'' '' / '' ''Tests'' ''junit-xml''
                              negative_suite (example_world 1700000000000)))
                  ''u-container.json'')
       \<noteq> stop_of (files (snd (convert_suite (\<lambda>s. s) ''report'' '' / '' ''Tests''
                                  ''junit-xml'' negative_suite (example_world 1700000000000)))
                  ''uu-result.json'')"
  by (simp add: negative_suite_def suite_eval float_eval)

section \<open>The timing cursor\<close>

text \<open>
  Claim C7, on the code. The cursor of a case is \<open>last_stop or suite_start\<close>, and 0 is
  falsy: after a case that stops at 0 the next case starts at the start of the suite,
  not at the stop of the case before. (After a case that stops elsewhere the next case
  starts at that stop, and the first case starts at the start of the suite: lemmas
  \<open>next_case_result\<close> and \<open>first_case_result\<close>.)
\<close>

theorem cursor_restarts_at_zero:
  "stop_of (files (snd (convert_suite (\<lambda>s. s) ''report'' '' / '' ''Tests'' ''junit-xml''
                              zero_stop_suite (example_world 1700000000000)))
                  ''uu-result.json'') = Some 0
   \<and> start_of (files (snd (convert_suite (\<lambda>s. s) ''report'' '' / '' ''Tests'' ''junit-xml''
                              zero_stop_suite (example_world 1700000000000)))
                  ''uuu-result.json'') = Some 1700000000000
   \<and> children_of (files (snd (convert_suite (\<lambda>s. s) ''report'' '' / '' ''Tests'' ''junit-xml''
                              zero_stop_suite (example_world 1700000000000)))
                  ''u-container.json'') = Some [''uu'', ''uuu'']"
  by (simp add: zero_stop_suite_def suite_eval float_eval)

section \<open>Property expansion\<close>

lemma startswith_iff: "startswith s p \<longleftrightarrow> (\<exists>r. s = p @ r)"
proof
  assume "startswith s p"
  then have "s = p @ drop (length p) s"
    by (metis append_take_drop_id startswith_def)
  then show "\<exists>r. s = p @ r" ..
next
  assume "\<exists>r. s = p @ r"
  then show "startswith s p" by (auto simp: startswith_def)
qed

lemma prefixes_exclusive:
  "startswith k ''allure.label.'' \<Longrightarrow> \<not> startswith k ''allure.link.''"
  "startswith k ''allure.label.'' \<Longrightarrow> \<not> startswith k ''allure.param.''"
  "startswith k ''allure.link.'' \<Longrightarrow> \<not> startswith k ''allure.param.''"
  by (auto simp: startswith_iff)

lemma route_properties_acc:
  "route_properties props (ls, ks, ps) =
     (ls @ map (\<lambda>(k, v). Label (drop (length ''allure.label.'') k) v)
             (filter (\<lambda>(k, v). startswith k ''allure.label.'') props),
      ks @ map (\<lambda>(k, v). Link (drop (length ''allure.link.'') k) v)
             (filter (\<lambda>(k, v). startswith k ''allure.link.'') props),
      ps @ map (\<lambda>(k, v). Parameter (drop (length ''allure.param.'') k) v)
             (filter (\<lambda>(k, v). startswith k ''allure.param.'') props))"
proof (induction props arbitrary: ls ks ps)
  case Nil
  then show ?case by simp
next
  case (Cons kv props)
  obtain k v where kv: "kv = (k, v)" by (cases kv)
  show ?case
    using prefixes_exclusive [of k] by (auto simp: kv Cons.IH)
qed

lemma result_labels:
  "r_labels (testcase_result digest fw sl spl splk cursor u tc)
     = own_labels fw tc @ sl @ spl
       @ fst (map_properties_to_labels_links_params (collect_properties tc))"
  by (simp add: testcase_result_def own_labels_def Let_def or_str_nonempty split: prod.splits)

section \<open>Properties in the documents of a suite\<close>

lemma suite_results_written:
  assumes fresh: "inj (uuid_source w)"
      and ok: "convert_suite digest stem sep dp fw ts w = (None, w')"
  shows "\<exists>sl. derive_suite_labels (or_str (el_get ts ''name'') stem) sep dp = Inr sl
           \<and> (\<forall>i < length (el_findall ts ''testcase'').
                 files w' (uuid_source w (Suc (uuid_calls w) + i) @ ''-result.json'') =
                   Some (ResultDoc
                     (case_results digest fw sl
                        (fst (map_properties_to_labels_links_params
                                (read_properties (el_find ts ''properties''))))
                        (fst (snd (map_properties_to_labels_links_params
                                     (read_properties (el_find ts ''properties'')))))
                        (clock_source w (clock_calls w)) (uuid_source w) (Suc (uuid_calls w))
                        (clock_source w (clock_calls w)) (el_findall ts ''testcase'') ! i)))"
proof -
  let ?tcs = "el_findall ts ''testcase''"
  let ?name = "or_str (el_get ts ''name'') stem"
  let ?sid = "uuid_source w (uuid_calls w)"
  let ?ss = "clock_source w (clock_calls w)"
  let ?sp = "map_properties_to_labels_links_params (read_properties (el_find ts ''properties''))"
  obtain sl where sl: "derive_suite_labels ?name sep dp = Inr sl"
    using ok by (cases "derive_suite_labels ?name sep dp")
                (simp_all add: convert_suite_eq Let_def)
  define rs where "rs = case_results digest fw sl (fst ?sp) (fst (snd ?sp)) ?ss (uuid_source w)
                          (Suc (uuid_calls w)) ?ss ?tcs"
  have w': "w' = snd (convert_suite digest stem sep dp fw ts w)"
    using ok by simp
  have fc: "files w' p = foldl put_result (files w) rs p"
    if "p \<noteq> ?sid @ ''-container.json''" for p
    unfolding w' using sl that by (simp add: convert_suite_eq Let_def rs_def)
  have len: "length rs = length ?tcs" by (simp add: rs_def)
  have ids: "map r_uuid rs = map (uuid_source w) [Suc (uuid_calls w) ..< Suc (uuid_calls w) + length ?tcs]"
    by (simp add: rs_def uuids_case_results)
  have dist: "distinct (map r_uuid rs)"
    unfolding ids using fresh by (simp add: distinct_map inj_on_def inj_def)
  have "files w' (uuid_source w (Suc (uuid_calls w) + i) @ ''-result.json'') = Some (ResultDoc (rs ! i))"
    if "i < length ?tcs" for i
  proof -
    have i: "i < length rs" using that len by simp
    have "r_uuid (rs ! i) = map r_uuid rs ! i" using i by simp
    also have "\<dots> = uuid_source w (Suc (uuid_calls w) + i)"
      unfolding ids using that by (simp del: upt_Suc)
    finally have u: "uuid_source w (Suc (uuid_calls w) + i) = r_uuid (rs ! i)" by simp
    have "files w' (r_uuid (rs ! i) @ ''-result.json'')
            = foldl put_result (files w) rs (r_uuid (rs ! i) @ ''-result.json'')"
      by (simp add: fc result_name_not_container)
    also have "\<dots> = Some (ResultDoc (rs ! i))"
      using dist i by (rule foldl_put_result_lookup)
    finally show ?thesis by (simp only: u)
  qed
  then show ?thesis using sl by (auto simp: rs_def)
qed

lemma case_results_labels:
  assumes "i < length tcs"
  shows "r_labels (case_results digest fw sl spl splk ss us n ls tcs ! i)
           = own_labels fw (tcs ! i) @ sl @ spl
             @ fst (map_properties_to_labels_links_params (collect_properties (tcs ! i)))"
proof -
  from nth_case_results [OF assms, of digest fw sl spl splk ss us n ls]
  obtain cursor where "case_results digest fw sl spl splk ss us n ls tcs ! i
                 = testcase_result digest fw sl spl splk cursor (us (n + i)) (tcs ! i)" ..
  then show ?thesis by (simp only: result_labels)
qed

text \<open>
  Claim C8. Property expansion keeps, in the order of the dictionary, the keys that start
  with \<open>allure.label.\<close>, \<open>allure.link.\<close> and \<open>allure.param.\<close> and makes of each a
  label, a link or a parameter named by the rest of the key; a key with none of the
  prefixes adds nothing. The labels of the document of a case are its own labels, the
  labels of the suite and of the properties of the suite, and the labels expanded from
  the properties of that case; so in the documents written for a suite, the labels of
  the document of the \<open>i\<close>-th case hold the property labels of the \<open>i\<close>-th case and of
  no other case.
\<close>

theorem property_expansion:
  "map_properties_to_labels_links_params props =
     (map (\<lambda>(k, v). Label (drop (length ''allure.label.'') k) v)
        (filter (\<lambda>(k, v). startswith k ''allure.label.'') props),
      map (\<lambda>(k, v). Link (drop (length ''allure.link.'') k) v)
        (filter (\<lambda>(k, v). startswith k ''allure.link.'') props),
      map (\<lambda>(k, v). Parameter (drop (length ''allure.param.'') k) v)
        (filter (\<lambda>(k, v). startswith k ''allure.param.'') props))
   \<and> map_properties_to_labels_links_params [(''allure.label.'' @ x, v)] = ([Label x v], [], [])
   \<and> map_properties_to_labels_links_params [(''allure.link.'' @ x, v)] = ([], [Link x v], [])
   \<and> map_properties_to_labels_links_params [(''allure.param.'' @ x, v)]
       = ([], [], [Parameter x v])
   \<and> (\<not> startswith k ''allure.label.'' \<and> \<not> startswith k ''allure.link.''
        \<and> \<not> startswith k ''allure.param.''
        \<longrightarrow> map_properties_to_labels_links_params [(k, v)] = ([], [], []))
   \<and> r_labels (testcase_result digest fw sl spl splk cursor u tc)
       = own_labels fw tc @ sl @ spl
         @ fst (map_properties_to_labels_links_params (collect_properties tc))
   \<and> (inj (uuid_source w) \<and> convert_suite digest stem sep dp fw ts w = (None, w') \<longrightarrow>
        (\<exists>suite_labels.
           derive_suite_labels (or_str (el_get ts ''name'') stem) sep dp = Inr suite_labels
           \<and> (\<forall>i < length (el_findall ts ''testcase'').
                \<exists>r. files w' (uuid_source w (Suc (uuid_calls w) + i) @ ''-result.json'')
                       = Some (ResultDoc r)
                   \<and> r_labels r =
                       own_labels fw (el_findall ts ''testcase'' ! i) @ suite_labels
                       @ fst (map_properties_to_labels_links_params
                                (read_properties (el_find ts ''properties'')))
                       @ fst (map_properties_to_labels_links_params
                                (collect_properties (el_findall ts ''testcase'' ! i))))))"
proof (intro conjI impI)
  show "map_properties_to_labels_links_params props =
     (map (\<lambda>(k, v). Label (drop (length ''allure.label.'') k) v)
        (filter (\<lambda>(k, v). startswith k ''allure.label.'') props),
      map (\<lambda>(k, v). Link (drop (length ''allure.link.'') k) v)
        (filter (\<lambda>(k, v). startswith k ''allure.link.'') props),
      map (\<lambda>(k, v). Parameter (drop (length ''allure.param.'') k) v)
        (filter (\<lambda>(k, v). startswith k ''allure.param.'') props))"
    by (simp add: map_properties_to_labels_links_params_def route_properties_acc)
  show "map_properties_to_labels_links_params [(''allure.label.'' @ x, v)] = ([Label x v], [], [])"
    by (simp add: map_properties_to_labels_links_params_def startswith_def)
  show "map_properties_to_labels_links_params [(''allure.link.'' @ x, v)] = ([], [Link x v], [])"
    by (simp add: map_properties_to_labels_links_params_def startswith_def)
  show "map_properties_to_labels_links_params [(''allure.param.'' @ x, v)]
       = ([], [], [Parameter x v])"
    by (simp add: map_properties_to_labels_links_params_def startswith_def)
  show "map_properties_to_labels_links_params [(k, v)] = ([], [], [])"
    if "\<not> startswith k ''allure.label.'' \<and> \<not> startswith k ''allure.link.''
        \<and> \<not> startswith k ''allure.param.''"
    using that by (simp add: map_properties_to_labels_links_params_def)
  show "r_labels (testcase_result digest fw sl spl splk cursor u tc)
       = own_labels fw tc @ sl @ spl
         @ fst (map_properties_to_labels_links_params (collect_properties tc))"
    by (rule result_labels)
  show "\<exists>suite_labels.
           derive_suite_labels (or_str (el_get ts ''name'') stem) sep dp = Inr suite_labels
           \<and> (\<forall>i < length (el_findall ts ''testcase'').
                \<exists>r. files w' (uuid_source w (Suc (uuid_calls w) + i) @ ''-result.json'')
                       = Some (ResultDoc r)
                   \<and> r_labels r =
                       own_labels fw (el_findall ts ''testcase'' ! i) @ suite_labels
                       @ fst (map_properties_to_labels_links_params
                                (read_properties (el_find ts ''properties'')))
                       @ fst (map_properties_to_labels_links_params
                                (collect_properties (el_findall ts ''testcase'' ! i))))"
    if h: "inj (uuid_source w) \<and> convert_suite digest stem sep dp fw ts w = (None, w')"
  proof -
    from h have fresh: "inj (uuid_source w)"
      and ok: "convert_suite digest stem sep dp fw ts w = (None, w')" by simp_all
    from suite_results_written [OF fresh ok] obtain sl where
      sl: "derive_suite_labels (or_str (el_get ts ''name'') stem) sep dp = Inr sl"
      and wr: "\<forall>i < length (el_findall ts ''testcase'').
                 files w' (uuid_source w (Suc (uuid_calls w) + i) @ ''-result.json'') =
                   Some (ResultDoc
                     (case_results digest fw sl
                        (fst (map_properties_to_labels_links_params
                                (read_properties (el_find ts ''properties''))))
                        (fst (snd (map_properties_to_labels_links_params
                                     (read_properties (el_find ts ''properties'')))))
                        (clock_source w (clock_calls w)) (uuid_source w) (Suc (uuid_calls w))
                        (clock_source w (clock_calls w)) (el_findall ts ''testcase'') ! i))"
      by blast
    show ?thesis
      using sl wr by (intro exI [of _ sl]) (simp add: case_results_labels)
  qed
qed

text \<open>
  Claim C8 on \<open>example_suite\<close>: the label \<open>epic = Payments\<close>, a property of the second
  case, is in the document of the second case and not in the document of the first; the
  key \<open>owner\<close> has no recognised prefix and adds nothing.
\<close>

theorem property_expansion_witness:
  "\<not> startswith ''owner'' ''allure.label.'' \<and> \<not> startswith ''owner'' ''allure.link.''
   \<and> \<not> startswith ''owner'' ''allure.param.''
   \<and> map_properties_to_labels_links_params [(''owner'', ''qa'')] = ([], [], [])
   \<and> inj (uuid_source (example_world 1700000000000))
   \<and> fst (convert_suite (\<lambda>s. s) ''report'' '' / '' ''Tests'' ''junit-xml'' example_suite
            (example_world 1700000000000)) = None
   \<and> (\<exists>r. files (snd (convert_suite (\<lambda>s. s) ''report'' '' / '' ''Tests'' ''junit-xml''
                         example_suite (example_world 1700000000000)))
             ''uu-result.json'' = Some (ResultDoc r)
          \<and> r_labels r =
              [Label ''framework'' ''junit-xml'', Label ''language'' ''unknown'',
               Label ''package'' ''shop'', Label ''testClass'' ''CartTest'',
               Label ''testMethod'' ''adds'', Label ''parentSuite'' ''Web'',
               Label ''suite'' ''Checkout'', Label ''subSuite'' ''Cart''])
   \<and> (\<exists>r. files (snd (convert_suite (\<lambda>s. s) ''report'' '' / '' ''Tests'' ''junit-xml''
                         example_suite (example_world 1700000000000)))
             ''uuu-result.json'' = Some (ResultDoc r)
          \<and> r_labels r =
              [Label ''framework'' ''junit-xml'', Label ''language'' ''unknown'',
               Label ''package'' ''shop'', Label ''testClass'' ''CartTest'',
               Label ''testMethod'' ''pays'', Label ''parentSuite'' ''Web'',
               Label ''suite'' ''Checkout'', Label ''subSuite'' ''Cart'',
               Label ''epic'' ''Payments''])"
proof -
  let ?w = "example_world 1700000000000"
  let ?w' = "snd (convert_suite (\<lambda>s. s) ''report'' '' / '' ''Tests'' ''junit-xml''
                    example_suite ?w)"
  let ?tc0 = "Element ''testcase'' [(''classname'', ''shop.CartTest''), (''name'', ''adds''),
                              (''time'', ''0.5'')] None []"
  let ?tc1 = "Element ''testcase'' [(''classname'', ''shop.CartTest''), (''name'', ''pays'')] None
          [Element ''properties'' [] None
             [Element ''property'' [(''name'', ''allure.label.epic''), (''value'', ''Payments'')]
                None []]]"
  note t = property_expansion
             [where props = "[]" and k = "''owner''" and v = "''qa''" and w = ?w and w' = ?w'
                and ts = example_suite and digest = "\<lambda>s. s" and stem = "''report''"
                and sep = "'' / ''" and dp = "''Tests''" and fw = "''junit-xml''"]
  note ignored = t [THEN conjunct2, THEN conjunct2, THEN conjunct2, THEN conjunct2,
                    THEN conjunct1]
  note suite = t [THEN conjunct2, THEN conjunct2, THEN conjunct2, THEN conjunct2,
                  THEN conjunct2, THEN conjunct2, THEN mp,
                  OF conjI [OF example_world_inj example_suite_converts]]
  have pre: "\<not> startswith ''owner'' ''allure.label.'' \<and> \<not> startswith ''owner'' ''allure.link.''
             \<and> \<not> startswith ''owner'' ''allure.param.''"
    by (simp add: startswith_def)
  have ign: "map_properties_to_labels_links_params [(''owner'', ''qa'')] = ([], [], [])"
    using ignored pre by (rule mp)
  have tcs: "el_findall example_suite ''testcase'' = [?tc0, ?tc1]"
    by (simp add: example_suite_def el_findall_def)
  have sp: "read_properties (el_find example_suite ''properties'') = []"
    by (simp add: example_suite_def el_find_def read_properties_def)
  have u0: "uuid_source ?w (Suc (uuid_calls ?w) + 0) @ ''-result.json'' = ''uu-result.json''"
    and u1: "uuid_source ?w (Suc (uuid_calls ?w) + 1) @ ''-result.json'' = ''uuu-result.json''"
    by (simp_all add: example_world_def)
  have l0: "own_labels ''junit-xml'' ?tc0 =
              [Label ''framework'' ''junit-xml'', Label ''language'' ''unknown'',
               Label ''package'' ''shop'', Label ''testClass'' ''CartTest'',
               Label ''testMethod'' ''adds'']"
    and l1: "own_labels ''junit-xml'' ?tc1 =
              [Label ''framework'' ''junit-xml'', Label ''language'' ''unknown'',
               Label ''package'' ''shop'', Label ''testClass'' ''CartTest'',
               Label ''testMethod'' ''pays'']"
    by (simp_all add: own_labels_def or_str_def el_get_def split_classname_def rsplit_dot_def)
  have p0: "fst (map_properties_to_labels_links_params (collect_properties ?tc0)) = []"
    and p1: "fst (map_properties_to_labels_links_params (collect_properties ?tc1))
               = [Label ''epic'' ''Payments'']"
    by (simp_all add: collect_properties_def read_properties_def el_find_def el_findall_def
          el_get_def or_str_def map_properties_to_labels_links_params_def startswith_def)
  have e: "fst (map_properties_to_labels_links_params []) = []"
    by (simp add: map_properties_to_labels_links_params_def)
  from suite obtain sl where
    sl: "derive_suite_labels (or_str (el_get example_suite ''name'') ''report'') '' / '' ''Tests''
           = Inr sl"
    and wr: "\<forall>i < length (el_findall example_suite ''testcase'').
              \<exists>r. files ?w' (uuid_source ?w (Suc (uuid_calls ?w) + i) @ ''-result.json'')
                     = Some (ResultDoc r)
                 \<and> r_labels r =
                     own_labels ''junit-xml'' (el_findall example_suite ''testcase'' ! i) @ sl
                     @ fst (map_properties_to_labels_links_params
                              (read_properties (el_find example_suite ''properties'')))
                     @ fst (map_properties_to_labels_links_params
                              (collect_properties (el_findall example_suite ''testcase'' ! i)))"
    by (elim exE conjE)
  have sl': "sl = [Label ''parentSuite'' ''Web'', Label ''suite'' ''Checkout'',
                   Label ''subSuite'' ''Cart'']"
    using sl by (simp only: example_suite_labels sum.inject)
  have r0: "\<exists>r. files ?w' ''uu-result.json'' = Some (ResultDoc r)
          \<and> r_labels r =
              [Label ''framework'' ''junit-xml'', Label ''language'' ''unknown'',
               Label ''package'' ''shop'', Label ''testClass'' ''CartTest'',
               Label ''testMethod'' ''adds'', Label ''parentSuite'' ''Web'',
               Label ''suite'' ''Checkout'', Label ''subSuite'' ''Cart'']"
    using wr [rule_format, of 0] unfolding tcs sp u0 sl' by (simp add: l0 p0 e)
  have r1: "\<exists>r. files ?w' ''uuu-result.json'' = Some (ResultDoc r)
          \<and> r_labels r =
              [Label ''framework'' ''junit-xml'', Label ''language'' ''unknown'',
               Label ''package'' ''shop'', Label ''testClass'' ''CartTest'',
               Label ''testMethod'' ''pays'', Label ''parentSuite'' ''Web'',
               Label ''suite'' ''Checkout'', Label ''subSuite'' ''Cart'',
               Label ''epic'' ''Payments'']"
    using wr [rule_format, of 1] unfolding tcs sp u1 sl' by (simp add: l1 p1 e)
  show ?thesis
    using pre ign example_world_inj example_suite_ok r0 r1 by (intro conjI) simp_all
qed

end
